theory Spec2Isabelle
  imports Complex_Main "HOL-Library.Char_ord" "HOL-Library.List_Lexorder" "HOL-Library.Multiset"
begin

section \<open>Data model (types.ts)\<close>

text \<open>
  JavaScript numbers are modelled as \<^typ>\<open>real\<close>: the formulas of the source are kept
  operation by operation, and their rounding to IEEE doubles is not modelled.
  Strings are \<^typ>\<open>string\<close>.

  The six fields that the response schema of \<open>geminiService.ts\<close> requires of every
  text block form the record \<open>vendor_block\<close>; \<open>DetectedTextBlock\<close> of \<open>types.ts\<close>
  extends it with the two fields the application adds, \<open>id\<close> (here \<open>block_id\<close>, since
  \<open>id\<close> is the identity function of HOL) and \<open>currentText\<close>.
  \<open>box_2d\<close> is the 4-tuple \<open>[ymin, xmin, ymax, xmax]\<close>; \<open>box_2d[0]\<close> .. \<open>box_2d[3]\<close>
  are its components in that order.
\<close>

type_synonym box = "real \<times> real \<times> real \<times> real"

record vendor_block =
  originalText :: string
  box_2d :: box
  textColor :: string
  backgroundColor :: string
  fontFamily :: string
  fontWeight :: string

record DetectedTextBlock = vendor_block +
  block_id :: string
  currentText :: string

record AnalysisResult =
  textBlocks :: "DetectedTextBlock list"

section \<open>Editing the text of a block (App.tsx, ProjectEditor)\<close>

text \<open>
  \<open>prev.map(b => b.id === id ? { ...b, currentText: newText } : b)\<close>: the updater that
  \<open>updateBlockText\<close> hands to \<open>setBlocks\<close>, in \<open>App.tsx\<close> and, as \<open>newBlocks\<close>, in
  the project editor, where the list it returns is the new state as well.
\<close>

definition updateBlockText :: "string \<Rightarrow> string \<Rightarrow> DetectedTextBlock list \<Rightarrow> DetectedTextBlock list" where
  "updateBlockText ident newText prev =
     map (\<lambda>b. if block_id b = ident then b\<lparr>currentText := newText\<rparr> else b) prev"

section \<open>The editor canvas (EditorCanvas)\<close>

text \<open>
  The objects that \<open>EditorCanvas\<close> hands to the canvas library: \<open>fabric.Rect\<close> and
  \<open>fabric.Textbox\<close>, with the options the component sets (the constant corner and border
  styling of the textbox is left out). The canvas is its dimensions and the list of its
  objects in the order of \<open>canvas.add\<close>.
\<close>

record Rect =
  rect_left :: real
  rect_top :: real
  rect_width :: real
  rect_height :: real
  rect_fill :: string
  rect_selectable :: bool
  rect_evented :: bool
  rect_excludeFromExport :: bool

record Textbox =
  tb_text :: string
  tb_left :: real
  tb_top :: real
  tb_width :: real
  tb_fontSize :: real
  tb_fontFamily :: string
  tb_fontWeight :: string
  tb_fill :: string
  tb_textAlign :: string
  tb_editable :: bool

datatype fabric_object = MaskRect Rect | TextObj Textbox

record canvas =
  canvas_width :: real
  canvas_height :: real
  objects :: "fabric_object list"

text \<open>\<open>canvas.add(object)\<close> appends to the object list.\<close>

definition canvas_add :: "fabric_object \<Rightarrow> canvas \<Rightarrow> canvas" where
  "canvas_add ob c = c\<lparr>objects := objects c @ [ob]\<rparr>"

text \<open>
  The body of \<open>blocks.forEach(block => ...)\<close>: the pixel box \<open>x, y, w, h\<close> of the block, the
  mask rectangle when the image was not cleaned, then the textbox.
\<close>

definition process_block :: "bool \<Rightarrow> real \<Rightarrow> real \<Rightarrow> DetectedTextBlock \<Rightarrow> canvas \<Rightarrow> canvas" where
  "process_block isCleaned width height block c =
     (case box_2d block of (b0, b1, b2, b3) \<Rightarrow>
        let x = (b1 / 1000) * width;
            y = (b0 / 1000) * height;
            w = ((b3 - b1) / 1000) * width;
            h = ((b2 - b0) / 1000) * height;
            c1 = (if \<not> isCleaned then
                    let paddingX = w * 0.05;
                        paddingY = h * 0.05;
                        maskRect = \<lparr>rect_left = x - paddingX, rect_top = y - paddingY,
                                    rect_width = w + (paddingX * 2), rect_height = h + (paddingY * 2),
                                    rect_fill = backgroundColor block, rect_selectable = False,
                                    rect_evented = False, rect_excludeFromExport = False\<rparr>
                    in canvas_add (MaskRect maskRect) c
                  else c);
            fontSize = h * 0.8;
            family = (if fontFamily block = ''serif'' then ''Times New Roman''
                      else if fontFamily block = ''monospace'' then ''Courier New''
                      else if fontFamily block = ''cursive'' then ''Brush Script MT''
                      else ''Arial'');
            textbox = \<lparr>tb_text = currentText block, tb_left = x, tb_top = y + (h * 0.1),
                       tb_width = w, tb_fontSize = fontSize, tb_fontFamily = family,
                       tb_fontWeight = fontWeight block, tb_fill = textColor block,
                       tb_textAlign = ''center'', tb_editable = True\<rparr>
        in canvas_add (TextObj textbox) c1)"

text \<open>
  \<open>imgElement.onload\<close>: the canvas is cleared and takes the natural size of the image,
  \<open>naturalWidth || 800\<close> by \<open>naturalHeight || 600\<close> (a natural size is a non-negative
  integer, and \<open>0\<close> is the only falsy one), and every block is processed in order.
\<close>

definition onload :: "nat \<Rightarrow> nat \<Rightarrow> DetectedTextBlock list \<Rightarrow> bool \<Rightarrow> canvas \<Rightarrow> canvas" where
  "onload naturalWidth naturalHeight blocks isCleaned canvas0 =
     (let width = (if naturalWidth = 0 then 800 else real naturalWidth);
          height = (if naturalHeight = 0 then 600 else real naturalHeight);
          c = canvas0\<lparr>objects := [], canvas_width := width, canvas_height := height\<rparr>
      in fold (process_block isCleaned width height) blocks c)"


text \<open>The textboxes and the mask rectangles among the objects of a canvas, in order.\<close>

fun textboxes :: "fabric_object list \<Rightarrow> Textbox list" where
  "textboxes [] = []"
| "textboxes (TextObj t # obs) = t # textboxes obs"
| "textboxes (MaskRect r # obs) = textboxes obs"

fun maskRects :: "fabric_object list \<Rightarrow> Rect list" where
  "maskRects [] = []"
| "maskRects (MaskRect r # obs) = r # maskRects obs"
| "maskRects (TextObj t # obs) = maskRects obs"

section \<open>The environment of the services\<close>

text \<open>
  What the services take from outside is state of the \<open>world\<close>, threaded through every
  operation:
  \<^item> \<open>store\<close>: the records of the object store \<open>projects\<close>, in the order of their keys;
  \<^item> \<open>clock\<close>, \<open>clock_reads\<close>: the value that the n-th call of \<open>Date.now()\<close> returns,
    and the number of calls made so far;
  \<^item> \<open>uuids\<close>, \<open>uuid_draws\<close>: the same for \<open>uuidv4()\<close>;
  \<^item> \<open>replies\<close>, \<open>sent\<close>: the outcome of the n-th \<open>generateContent\<close> request (an error
    when the promise rejects), and the requests sent so far; in a response, what the
    source tests for presence (\<open>text\<close>, \<open>candidates\<close>, \<open>content\<close>, \<open>parts\<close>,
    \<open>inlineData\<close>) is optional;
  \<^item> \<open>aistudio\<close>: the optional \<open>window.aistudio\<close> object;
  \<^item> \<open>alerts\<close>, \<open>location\<close>: the messages shown by \<open>alert\<close> and the current route.
\<close>

datatype js_error = Error string | SyntaxError string | NetworkError string

record Project =
  project_id :: string
  name :: string
  createdAt :: int
  updatedAt :: int
  originalImage :: string
  processedImage :: "string option"
  blocks :: "DetectedTextBlock list"

text \<open>
  \<open>Partial<Project>\<close>: every field is optional; \<open>None\<close> is a field that the update does not
  name.
\<close>

record ProjectUpdates =
  upd_id :: "string option"
  upd_name :: "string option"
  upd_createdAt :: "int option"
  upd_updatedAt :: "int option"
  upd_originalImage :: "string option"
  upd_processedImage :: "string option option"
  upd_blocks :: "DetectedTextBlock list option"

record InlineData =
  inline_data :: string

record Part =
  part_inlineData :: "InlineData option"

record Content =
  content_parts :: "Part list option"

record Candidate =
  cand_content :: "Content option"

record GenerateContentResponse =
  resp_text :: "string option"
  resp_candidates :: "Candidate list option"

record request =
  req_model :: string
  req_image :: string
  req_prompt :: string

record AiStudio =
  hasSelectedApiKey :: "(js_error + bool) option"
  openSelectKey :: "(js_error + unit) option"

record world =
  store :: "Project list"
  clock :: "nat \<Rightarrow> int"
  clock_reads :: nat
  uuids :: "nat \<Rightarrow> string"
  uuid_draws :: nat
  replies :: "nat \<Rightarrow> js_error + GenerateContentResponse"
  sent :: "request list"
  aistudio :: "AiStudio option"
  alerts :: "string list"
  location :: string

definition Date_now :: "world \<Rightarrow> int \<times> world" where
  "Date_now w = (clock w (clock_reads w), w\<lparr>clock_reads := Suc (clock_reads w)\<rparr>)"

definition uuidv4 :: "world \<Rightarrow> string \<times> world" where
  "uuidv4 w = (uuids w (uuid_draws w), w\<lparr>uuid_draws := Suc (uuid_draws w)\<rparr>)"

section \<open>The persistence layer (storageService)\<close>

text \<open>
  \<open>initDB\<close> opens the database at version 1; its \<open>upgrade\<close> callback, run on the empty
  database, creates the object stores and indexes listed by \<open>upgrade\<close> below.
\<close>

record index_spec =
  index_name :: string
  index_keyPath :: string

record store_spec =
  store_name :: string
  store_keyPath :: string
  store_indexes :: "index_spec list"

definition createObjectStore :: "string \<Rightarrow> string \<Rightarrow> store_spec list \<Rightarrow> store_spec list" where
  "createObjectStore nm keyPath db =
     db @ [\<lparr>store_name = nm, store_keyPath = keyPath, store_indexes = []\<rparr>]"

definition createIndex :: "string \<Rightarrow> string \<Rightarrow> string \<Rightarrow> store_spec list \<Rightarrow> store_spec list" where
  "createIndex st nm keyPath db =
     map (\<lambda>s. if store_name s = st
                then s\<lparr>store_indexes := store_indexes s @ [\<lparr>index_name = nm, index_keyPath = keyPath\<rparr>]\<rparr>
                else s) db"

definition upgrade :: "store_spec list \<Rightarrow> store_spec list" where
  "upgrade db = createIndex ''projects'' ''by-date'' ''updatedAt''
                  (createObjectStore ''projects'' ''id'' db)"

definition initDB :: "store_spec list" where
  "initDB = upgrade []"

text \<open>
  The operations of the object store \<open>projects\<close>, whose key path is \<open>id\<close>: \<open>get\<close> returns
  the record with the key or \<open>undefined\<close>; \<open>put\<close> replaces the record that has the key of
  the new one, or adds it, keeping the records in key order; \<open>getAllFromIndex\<close> on
  \<open>by-date\<close> returns the records in ascending order of \<open>updatedAt\<close>, records with equal
  \<open>updatedAt\<close> in the order of their keys.
\<close>

definition db_get :: "string \<Rightarrow> Project list \<Rightarrow> Project option" where
  "db_get k s = find (\<lambda>p. project_id p = k) s"

definition db_put :: "Project \<Rightarrow> Project list \<Rightarrow> Project list" where
  "db_put p s = insort_key project_id p (filter (\<lambda>q. project_id q \<noteq> project_id p) s)"

definition db_delete :: "string \<Rightarrow> Project list \<Rightarrow> Project list" where
  "db_delete k s = filter (\<lambda>q. project_id q \<noteq> k) s"

definition db_getAllFromIndex_by_date :: "Project list \<Rightarrow> Project list" where
  "db_getAllFromIndex_by_date s = sort_key updatedAt s"

definition createProject ::
  "string \<Rightarrow> string \<Rightarrow> DetectedTextBlock list \<Rightarrow> world \<Rightarrow> string \<times> world" where
  "createProject nm img bs w =
     (let (ident, w1) = uuidv4 w;
          (t1, w2) = Date_now w1;
          (t2, w3) = Date_now w2;
          project = \<lparr>project_id = ident, name = nm, createdAt = t1, updatedAt = t2,
                     originalImage = img, processedImage = None, blocks = bs\<rparr>
      in (ident, w3\<lparr>store := db_put project (store w3)\<rparr>))"

definition getProject :: "string \<Rightarrow> world \<Rightarrow> Project option" where
  "getProject ident w = db_get ident (store w)"

definition getAllProjects :: "world \<Rightarrow> Project list" where
  "getAllProjects w = db_getAllFromIndex_by_date (store w)"

text \<open>
  \<open>{ ...project, ...updates, updatedAt: Date.now() }\<close>: a field named by the update takes
  its value, any other field that of the stored project; \<open>updatedAt\<close> is set last.
\<close>

definition overlay :: "Project \<Rightarrow> ProjectUpdates \<Rightarrow> int \<Rightarrow> Project" where
  "overlay project updates t =
     \<lparr>project_id = (case upd_id updates of Some v \<Rightarrow> v | None \<Rightarrow> project_id project),
      name = (case upd_name updates of Some v \<Rightarrow> v | None \<Rightarrow> name project),
      createdAt = (case upd_createdAt updates of Some v \<Rightarrow> v | None \<Rightarrow> createdAt project),
      updatedAt = t,
      originalImage = (case upd_originalImage updates of Some v \<Rightarrow> v | None \<Rightarrow> originalImage project),
      processedImage = (case upd_processedImage updates of Some v \<Rightarrow> v | None \<Rightarrow> processedImage project),
      blocks = (case upd_blocks updates of Some v \<Rightarrow> v | None \<Rightarrow> blocks project)\<rparr>"

definition updateProject :: "string \<Rightarrow> ProjectUpdates \<Rightarrow> world \<Rightarrow> (js_error + unit) \<times> world" where
  "updateProject ident updates w =
     (case db_get ident (store w) of
        None \<Rightarrow> (Inl (Error (''Project '' @ ident @ '' not found'')), w)
      | Some project \<Rightarrow>
          (let (t, w1) = Date_now w;
               updatedProject = overlay project updates t
           in (Inr (), w1\<lparr>store := db_put updatedProject (store w1)\<rparr>)))"

definition deleteProject :: "string \<Rightarrow> world \<Rightarrow> world" where
  "deleteProject ident w = w\<lparr>store := db_delete ident (store w)\<rparr>"

section \<open>The AI calls (geminiService)\<close>

text \<open>
  \<open>base64Image.split(',')[1] || base64Image\<close>: the text between the first comma and the
  next one, or the whole string when there is no comma or that text is empty.
\<close>

definition cleanBase64 :: "string \<Rightarrow> string" where
  "cleanBase64 base64Image =
     (case dropWhile (\<lambda>c. c \<noteq> CHR '','') base64Image of
        [] \<Rightarrow> base64Image
      | _ # rest \<Rightarrow>
          (let seg = takeWhile (\<lambda>c. c \<noteq> CHR '','') rest
           in if seg = [] then base64Image else seg))"

text \<open>
  \<open>ai.models.generateContent(request)\<close>: the request is sent, and the outcome is the
  next reply of the world.
\<close>

definition generateContent :: "request \<Rightarrow> world \<Rightarrow> (js_error + GenerateContentResponse) \<times> world" where
  "generateContent req w = (replies w (length (sent w)), w\<lparr>sent := sent w @ [req]\<rparr>)"

text \<open>Numbers in template literals: decimal digits, with a sign for negative integers.\<close>

definition digit_char :: "nat \<Rightarrow> char" where
  "digit_char d = ''0123456789'' ! d"

fun show_nat :: "nat \<Rightarrow> string" where
  "show_nat n = (if n < 10 then [digit_char n] else show_nat (n div 10) @ [digit_char (n mod 10)])"

declare show_nat.simps [simp del]

definition show_int :: "int \<Rightarrow> string" where
  "show_int i = (if i < 0 then CHR ''-'' # show_nat (nat (- i)) else show_nat (nat i))"

text \<open>
  The parsed response, at the type of \<open>responseSchema\<close>: an object whose \<open>textBlocks\<close>,
  which the schema does not require, is a list of blocks with the six required fields.
  \<open>JSON.parse\<close> is a parameter of \<open>analyzeImageText\<close>, with \<open>Inl\<close> for the error it throws.
\<close>

record analysis_data =
  data_textBlocks :: "vendor_block list option"

text \<open>
  \<open>(data.textBlocks || []).map((block, index) => ({ ...block, id: `block-${index}-${Date.now()}`,
  currentText: block.originalText }))\<close>, with one reading of the clock per block.
\<close>

fun processedBlocks :: "vendor_block list \<Rightarrow> nat \<Rightarrow> world \<Rightarrow> DetectedTextBlock list \<times> world" where
  "processedBlocks [] index w = ([], w)"
| "processedBlocks (block # rest) index w =
     (let (t, w1) = Date_now w;
          b = \<lparr>originalText = originalText block, box_2d = box_2d block,
               textColor = textColor block, backgroundColor = backgroundColor block,
               fontFamily = fontFamily block, fontWeight = fontWeight block,
               block_id = ''block-'' @ show_nat index @ ''-'' @ show_int t,
               currentText = originalText block\<rparr>;
          (bs, w2) = processedBlocks rest (Suc index) w1
      in (b # bs, w2))"

definition analyze_request :: "string \<Rightarrow> request" where
  "analyze_request base64Image =
     \<lparr>req_model = ''gemini-3-pro-preview'', req_image = cleanBase64 base64Image,
      req_prompt = ''Analyze this image for text editing. 1. Detect all visible text. 2. Create TIGHT bounding boxes around each text line or block. 3. Accurately identify the background color behind the text so we can erase it. 4. Estimate font style.''\<rparr>"

text \<open>The body of the \<open>try\<close> block of \<open>analyzeImageText\<close>; \<open>Inl\<close> is an error thrown in it.\<close>

definition analyzeImageText_try ::
  "(string \<Rightarrow> js_error + analysis_data) \<Rightarrow> string \<Rightarrow> world \<Rightarrow> (js_error + AnalysisResult) \<times> world" where
  "analyzeImageText_try JSON_parse base64Image w =
     (let (reply, w1) = generateContent (analyze_request base64Image) w
      in case reply of
           Inl e \<Rightarrow> (Inl e, w1)
         | Inr response \<Rightarrow>
             (case resp_text response of
                None \<Rightarrow> (Inl (Error ''No response from Gemini''), w1)
              | Some jsonText \<Rightarrow>
                  if jsonText = [] then (Inl (Error ''No response from Gemini''), w1)
                  else (case JSON_parse jsonText of
                          Inl e \<Rightarrow> (Inl e, w1)
                        | Inr data \<Rightarrow>
                            (let (bs, w2) = processedBlocks
                                   (case data_textBlocks data of None \<Rightarrow> [] | Some vs \<Rightarrow> vs) 0 w1
                             in (Inr \<lparr>textBlocks = bs\<rparr>, w2)))))"

text \<open>\<open>catch (error) { console.error(...); throw error; }\<close>: the error is thrown again.\<close>

definition analyzeImageText ::
  "(string \<Rightarrow> js_error + analysis_data) \<Rightarrow> string \<Rightarrow> world \<Rightarrow> (js_error + AnalysisResult) \<times> world" where
  "analyzeImageText JSON_parse base64Image w =
     (case analyzeImageText_try JSON_parse base64Image w of
        (Inl e, w') \<Rightarrow> (Inl e, w')
      | (Inr result, w') \<Rightarrow> (Inr result, w'))"

text \<open>
  The key selection that precedes the request of \<open>removeTextFromImage\<close>: when
  \<open>window.aistudio\<close> and its \<open>hasSelectedApiKey\<close> exist, the latter is awaited, and when it
  answers no and \<open>openSelectKey\<close> exists, that is awaited too. Either may reject.
\<close>

definition select_api_key :: "world \<Rightarrow> js_error + unit" where
  "select_api_key w =
     (case aistudio w of
        None \<Rightarrow> Inr ()
      | Some studio \<Rightarrow>
          (case hasSelectedApiKey studio of
             None \<Rightarrow> Inr ()
           | Some (Inl e) \<Rightarrow> Inl e
           | Some (Inr hasKey) \<Rightarrow>
               (if \<not> hasKey then
                  (case openSelectKey studio of
                     None \<Rightarrow> Inr ()
                   | Some outcome \<Rightarrow> outcome)
                else Inr ())))"

definition clean_request :: "string \<Rightarrow> request" where
  "clean_request base64Image =
     \<lparr>req_model = ''gemini-3-pro-image-preview'', req_image = cleanBase64 base64Image,
      req_prompt = ''Remove all text from this image. Fill in the background where the text was to match the surrounding texture and lighting perfectly. Do not change the layout or other objects. Output only the cleaned image.''\<rparr>"

text \<open>\<open>response.candidates?.[0]?.content?.parts || []\<close>\<close>

definition response_parts :: "GenerateContentResponse \<Rightarrow> Part list" where
  "response_parts response =
     (case resp_candidates response of
        None \<Rightarrow> []
      | Some [] \<Rightarrow> []
      | Some (c # _) \<Rightarrow>
          (case cand_content c of
             None \<Rightarrow> []
           | Some ct \<Rightarrow> (case content_parts ct of None \<Rightarrow> [] | Some ps \<Rightarrow> ps)))"

text \<open>The \<open>for\<close> loop over the parts, returning at the first part with \<open>inlineData\<close>.\<close>

fun first_inline :: "Part list \<Rightarrow> string option" where
  "first_inline [] = None"
| "first_inline (part # rest) =
     (case part_inlineData part of
        Some inl \<Rightarrow> Some (''data:image/png;base64,'' @ inline_data inl)
      | None \<Rightarrow> first_inline rest)"

text \<open>The body of the \<open>try\<close> block of \<open>removeTextFromImage\<close>.\<close>

definition removeTextFromImage_try :: "string \<Rightarrow> world \<Rightarrow> (js_error + string option) \<times> world" where
  "removeTextFromImage_try base64Image w =
     (case select_api_key w of
        Inl e \<Rightarrow> (Inl e, w)
      | Inr _ \<Rightarrow>
          (let (reply, w1) = generateContent (clean_request base64Image) w
           in case reply of
                Inl e \<Rightarrow> (Inl e, w1)
              | Inr response \<Rightarrow> (Inr (first_inline (response_parts response)), w1)))"

text \<open>\<open>catch (error) { console.error(...); return null; }\<close>\<close>

definition removeTextFromImage :: "string \<Rightarrow> world \<Rightarrow> string option \<times> world" where
  "removeTextFromImage base64Image w =
     (case removeTextFromImage_try base64Image w of
        (Inl e, w') \<Rightarrow> (None, w')
      | (Inr result, w') \<Rightarrow> (result, w'))"

section \<open>Uploading a file (Dashboard, single-page App)\<close>

text \<open>
  A \<open>File\<close> of the file input: its name, its size in bytes, and the data URL that
  \<open>FileReader.readAsDataURL\<close> produces for it.
\<close>

record File =
  file_name :: string
  file_size :: nat
  file_dataURL :: string

text \<open>
  \<open>handleCreateProject\<close> of the Dashboard with the \<open>onloadend\<close> callback of its reader;
  the argument is \<open>event.target.files?.[0]\<close>.
\<close>

definition handleCreateProject :: "File option \<Rightarrow> world \<Rightarrow> world" where
  "handleCreateProject file_opt w =
     (case file_opt of
        None \<Rightarrow> w
      | Some file \<Rightarrow>
          if file_size file > 5 * 1024 * 1024
          then w\<lparr>alerts := alerts w @ [''Image size too large (max 5MB)'']\<rparr>
          else (let base64 = file_dataURL file;
                    first = takeWhile (\<lambda>c. c \<noteq> CHR ''.'') (file_name file);
                    nm = (if first = [] then ''Untitled Project'' else first);
                    (newId, w1) = createProject nm base64 [] w
                in w1\<lparr>location := ''/project/'' @ newId\<rparr>))"

text \<open>The state of the single-page editor (\<open>App.tsx\<close>), one field per \<open>useState\<close>.\<close>

record app_state =
  imageFile :: "File option"
  imageUrl :: "string option"
  processedImageUrl :: "string option"
  isAnalyzing :: bool
  statusMessage :: string
  error_msg :: "string option"
  blocks_st :: "DetectedTextBlock list"

text \<open>
  \<open>handleFileChange\<close>; \<open>URL.createObjectURL\<close> is a parameter.
\<close>

definition handleFileChange :: "(File \<Rightarrow> string) \<Rightarrow> File option \<Rightarrow> app_state \<Rightarrow> app_state" where
  "handleFileChange createObjectURL file_opt st =
     (case file_opt of
        None \<Rightarrow> st
      | Some file \<Rightarrow>
          if file_size file > 5 * 1024 * 1024
          then st\<lparr>error_msg := Some ''File size too large. Please upload an image under 5MB.''\<rparr>
          else st\<lparr>imageFile := Some file, imageUrl := Some (createObjectURL file),
                  processedImageUrl := None, blocks_st := [], error_msg := None\<rparr>)"

section \<open>Properties\<close>

subsection \<open>updateBlockText\<close>

lemma updateBlockText_length: "length (updateBlockText i t bs) = length bs"
  by (simp add: updateBlockText_def)

lemma updateBlockText_nth:
  "k < length bs \<Longrightarrow>
   updateBlockText i t bs ! k =
     (if block_id (bs ! k) = i then (bs ! k)\<lparr>currentText := t\<rparr> else bs ! k)"
  by (simp add: updateBlockText_def)

lemma updateBlockText_absent:
  "i \<notin> block_id ` set bs \<Longrightarrow> updateBlockText i t bs = bs"
  unfolding updateBlockText_def by (induction bs) auto

text \<open>
  C9. For every block list, block id and new text, \<open>updateBlockText\<close> returns a list of
  the same length and order: at each position, a block whose id is the given one has its
  \<open>currentText\<close> replaced by the new text and every other field as before, and a block
  with another id is returned as it was; ids are kept at every position; if no block has
  the id, the list is returned unchanged.
\<close>

theorem updateBlockText_frame:
  "length (updateBlockText i t bs) = length bs
   \<and> (\<forall>k < length bs.
        (block_id (bs ! k) = i \<longrightarrow>
           updateBlockText i t bs ! k = (bs ! k)\<lparr>currentText := t\<rparr>
           \<and> currentText (updateBlockText i t bs ! k) = t
           \<and> vendor_block.truncate (updateBlockText i t bs ! k) = vendor_block.truncate (bs ! k))
        \<and> (block_id (bs ! k) \<noteq> i \<longrightarrow> updateBlockText i t bs ! k = bs ! k)
        \<and> block_id (updateBlockText i t bs ! k) = block_id (bs ! k))
   \<and> (i \<notin> block_id ` set bs \<longrightarrow> updateBlockText i t bs = bs)"
  by (simp add: updateBlockText_length updateBlockText_nth updateBlockText_absent
      vendor_block.truncate_def)

theorem updateBlockText_frame_witness:
  "(1::nat) < length
     [\<lparr>originalText = ''x'', box_2d = (0, 0, 10, 10), textColor = ''#000000'',
       backgroundColor = ''#FFFFFF'', fontFamily = ''serif'', fontWeight = ''bold'',
       block_id = ''a'', currentText = ''x''\<rparr>,
      \<lparr>originalText = ''y'', box_2d = (20, 0, 30, 10), textColor = ''#000000'',
       backgroundColor = ''#FFFFFF'', fontFamily = ''serif'', fontWeight = ''bold'',
       block_id = ''b'', currentText = ''y''\<rparr>]
   \<and> updateBlockText ''b'' ''new''
     [\<lparr>originalText = ''x'', box_2d = (0, 0, 10, 10), textColor = ''#000000'',
       backgroundColor = ''#FFFFFF'', fontFamily = ''serif'', fontWeight = ''bold'',
       block_id = ''a'', currentText = ''x''\<rparr>,
      \<lparr>originalText = ''y'', box_2d = (20, 0, 30, 10), textColor = ''#000000'',
       backgroundColor = ''#FFFFFF'', fontFamily = ''serif'', fontWeight = ''bold'',
       block_id = ''b'', currentText = ''y''\<rparr>] ! 1
   = \<lparr>originalText = ''y'', box_2d = (20, 0, 30, 10), textColor = ''#000000'',
       backgroundColor = ''#FFFFFF'', fontFamily = ''serif'', fontWeight = ''bold'',
       block_id = ''b'', currentText = ''new''\<rparr>
   \<and> updateBlockText ''b'' ''new''
     [\<lparr>originalText = ''x'', box_2d = (0, 0, 10, 10), textColor = ''#000000'',
       backgroundColor = ''#FFFFFF'', fontFamily = ''serif'', fontWeight = ''bold'',
       block_id = ''a'', currentText = ''x''\<rparr>,
      \<lparr>originalText = ''y'', box_2d = (20, 0, 30, 10), textColor = ''#000000'',
       backgroundColor = ''#FFFFFF'', fontFamily = ''serif'', fontWeight = ''bold'',
       block_id = ''b'', currentText = ''y''\<rparr>] ! 0
   = \<lparr>originalText = ''x'', box_2d = (0, 0, 10, 10), textColor = ''#000000'',
       backgroundColor = ''#FFFFFF'', fontFamily = ''serif'', fontWeight = ''bold'',
       block_id = ''a'', currentText = ''x''\<rparr>
   \<and> updateBlockText ''c'' ''new''
     [\<lparr>originalText = ''x'', box_2d = (0, 0, 10, 10), textColor = ''#000000'',
       backgroundColor = ''#FFFFFF'', fontFamily = ''serif'', fontWeight = ''bold'',
       block_id = ''a'', currentText = ''x''\<rparr>]
   = [\<lparr>originalText = ''x'', box_2d = (0, 0, 10, 10), textColor = ''#000000'',
       backgroundColor = ''#FFFFFF'', fontFamily = ''serif'', fontWeight = ''bold'',
       block_id = ''a'', currentText = ''x''\<rparr>]"
proof -
  let ?A = "\<lparr>originalText = ''x'', box_2d = (0, 0, 10, 10), textColor = ''#000000'',
       backgroundColor = ''#FFFFFF'', fontFamily = ''serif'', fontWeight = ''bold'',
       block_id = ''a'', currentText = ''x''\<rparr>"
  let ?B = "\<lparr>originalText = ''y'', box_2d = (20, 0, 30, 10), textColor = ''#000000'',
       backgroundColor = ''#FFFFFF'', fontFamily = ''serif'', fontWeight = ''bold'',
       block_id = ''b'', currentText = ''y''\<rparr>"
  note T = updateBlockText_frame [of "''b''" "''new''" "[?A, ?B]"]
  from T have all: "\<forall>k<length [?A, ?B].
        (block_id ([?A, ?B] ! k) = ''b'' \<longrightarrow>
           updateBlockText ''b'' ''new'' [?A, ?B] ! k = ([?A, ?B] ! k)\<lparr>currentText := ''new''\<rparr>)
        \<and> (block_id ([?A, ?B] ! k) \<noteq> ''b'' \<longrightarrow> updateBlockText ''b'' ''new'' [?A, ?B] ! k = [?A, ?B] ! k)"
    by blast
  have k1: "(1::nat) < length [?A, ?B]" and k0: "(0::nat) < length [?A, ?B]" by simp_all
  from all k1 have one: "updateBlockText ''b'' ''new'' [?A, ?B] ! 1 = ([?A, ?B] ! 1)\<lparr>currentText := ''new''\<rparr>"
    by simp
  from all k0 have zero: "updateBlockText ''b'' ''new'' [?A, ?B] ! 0 = [?A, ?B] ! 0"
    by simp
  from updateBlockText_frame [of "''c''" "''new''" "[?A]"]
  have none: "updateBlockText ''c'' ''new'' [?A] = [?A]" by simp
  from k1 one zero none show ?thesis by simp
qed


subsection \<open>The editor canvas\<close>

lemma textboxes_append: "textboxes (xs @ ys) = textboxes xs @ textboxes ys"
  by (induction xs rule: textboxes.induct) simp_all

lemma maskRects_append: "maskRects (xs @ ys) = maskRects xs @ maskRects ys"
  by (induction xs rule: maskRects.induct) simp_all

lemma process_block_dims:
  "canvas_width (process_block ic W H b c) = canvas_width c
   \<and> canvas_height (process_block ic W H b c) = canvas_height c"
  by (simp add: process_block_def canvas_add_def Let_def split: prod.split)

lemma fold_process_block_dims:
  "canvas_width (fold (process_block ic W H) bs c) = canvas_width c
   \<and> canvas_height (fold (process_block ic W H) bs c) = canvas_height c"
  by (induction bs arbitrary: c) (simp_all add: process_block_dims)

lemma process_block_textboxes:
  "box_2d b = (b0, b1, b2, b3) \<Longrightarrow>
   textboxes (objects (process_block ic W H b c)) =
     textboxes (objects c) @
     [\<lparr>tb_text = currentText b, tb_left = (b1 / 1000) * W,
       tb_top = (b0 / 1000) * H + (((b2 - b0) / 1000) * H) * 0.1,
       tb_width = ((b3 - b1) / 1000) * W,
       tb_fontSize = (((b2 - b0) / 1000) * H) * 0.8,
       tb_fontFamily = (if fontFamily b = ''serif'' then ''Times New Roman''
                      else if fontFamily b = ''monospace'' then ''Courier New''
                      else if fontFamily b = ''cursive'' then ''Brush Script MT''
                      else ''Arial''),
       tb_fontWeight = fontWeight b, tb_fill = textColor b,
       tb_textAlign = ''center'', tb_editable = True\<rparr>]"
  by (simp add: process_block_def canvas_add_def Let_def textboxes_append)

lemma process_block_maskRects:
  "box_2d b = (b0, b1, b2, b3) \<Longrightarrow>
   maskRects (objects (process_block ic W H b c)) =
     maskRects (objects c) @
     (if ic then [] else
     [\<lparr>rect_left = (b1 / 1000) * W - (((b3 - b1) / 1000) * W) * 0.05,
       rect_top = (b0 / 1000) * H - (((b2 - b0) / 1000) * H) * 0.05,
       rect_width = ((b3 - b1) / 1000) * W + ((((b3 - b1) / 1000) * W) * 0.05) * 2,
       rect_height = ((b2 - b0) / 1000) * H + ((((b2 - b0) / 1000) * H) * 0.05) * 2,
       rect_fill = backgroundColor b, rect_selectable = False,
       rect_evented = False, rect_excludeFromExport = False\<rparr>])"
  by (simp add: process_block_def canvas_add_def Let_def maskRects_append)

lemma fold_process_block_textboxes_length:
  "length (textboxes (objects (fold (process_block ic W H) bs c))) =
     length (textboxes (objects c)) + length bs"
proof (induction bs arbitrary: c)
  case Nil
  show ?case by simp
next
  case (Cons b bs)
  obtain b0 b1 b2 b3 where bx: "box_2d b = (b0, b1, b2, b3)"
    by (cases "box_2d b") auto
  show ?case
    by (simp add: Cons.IH process_block_textboxes [OF bx])
qed

lemma fold_process_block_textboxes_old:
  "k < length (textboxes (objects c)) \<Longrightarrow>
   textboxes (objects (fold (process_block ic W H) bs c)) ! k = textboxes (objects c) ! k"
proof (induction bs arbitrary: c)
  case Nil
  show ?case by simp
next
  case (Cons b bs)
  obtain b0 b1 b2 b3 where bx: "box_2d b = (b0, b1, b2, b3)"
    by (cases "box_2d b") auto
  have "k < length (textboxes (objects (process_block ic W H b c)))"
    using Cons.prems by (simp add: process_block_textboxes [OF bx])
  from Cons.IH [OF this] show ?case
    using Cons.prems by (simp add: process_block_textboxes [OF bx] nth_append)
qed

lemma fold_process_block_textboxes_nth:
  "k < length bs \<Longrightarrow> box_2d (bs ! k) = (b0, b1, b2, b3) \<Longrightarrow>
   textboxes (objects (fold (process_block ic W H) bs c)) ! (length (textboxes (objects c)) + k) =
     \<lparr>tb_text = currentText (bs ! k), tb_left = (b1 / 1000) * W,
       tb_top = (b0 / 1000) * H + (((b2 - b0) / 1000) * H) * 0.1,
       tb_width = ((b3 - b1) / 1000) * W,
       tb_fontSize = (((b2 - b0) / 1000) * H) * 0.8,
       tb_fontFamily = (if fontFamily (bs ! k) = ''serif'' then ''Times New Roman''
                      else if fontFamily (bs ! k) = ''monospace'' then ''Courier New''
                      else if fontFamily (bs ! k) = ''cursive'' then ''Brush Script MT''
                      else ''Arial''),
       tb_fontWeight = fontWeight (bs ! k), tb_fill = textColor (bs ! k),
       tb_textAlign = ''center'', tb_editable = True\<rparr>"
proof (induction bs arbitrary: c k)
  case Nil
  then show ?case by simp
next
  case (Cons b bs)
  show ?case
  proof (cases k)
    case 0
    with Cons.prems have bx: "box_2d b = (b0, b1, b2, b3)" by simp
    have "length (textboxes (objects c)) < length (textboxes (objects (process_block ic W H b c)))"
      by (simp add: process_block_textboxes [OF bx])
    from fold_process_block_textboxes_old [OF this, of ic W H bs]
    show ?thesis using 0 by (simp add: process_block_textboxes [OF bx])
  next
    case (Suc j)
    obtain a0 a1 a2 a3 where bx: "box_2d b = (a0, a1, a2, a3)"
      by (cases "box_2d b") auto
    from Cons.prems Suc have j: "j < length bs" "box_2d (bs ! j) = (b0, b1, b2, b3)" by simp_all
    from Cons.IH [OF j, of "process_block ic W H b c"]
    show ?thesis using Suc by (simp add: process_block_textboxes [OF bx])
  qed
qed

lemma fold_process_block_maskRects:
  "maskRects (objects (fold (process_block ic W H) bs c)) =
     maskRects (objects c) @
     (if ic then [] else
      map (\<lambda>b. case box_2d b of (b0, b1, b2, b3) \<Rightarrow>
        \<lparr>rect_left = (b1 / 1000) * W - (((b3 - b1) / 1000) * W) * 0.05,
         rect_top = (b0 / 1000) * H - (((b2 - b0) / 1000) * H) * 0.05,
         rect_width = ((b3 - b1) / 1000) * W + ((((b3 - b1) / 1000) * W) * 0.05) * 2,
         rect_height = ((b2 - b0) / 1000) * H + ((((b2 - b0) / 1000) * H) * 0.05) * 2,
         rect_fill = backgroundColor b, rect_selectable = False,
         rect_evented = False, rect_excludeFromExport = False\<rparr>) bs)"
proof (induction bs arbitrary: c)
  case Nil
  show ?case by simp
next
  case (Cons b bs)
  obtain b0 b1 b2 b3 where bx: "box_2d b = (b0, b1, b2, b3)"
    by (cases "box_2d b") auto
  show ?case
    by (simp add: Cons.IH process_block_maskRects [OF bx] bx)
qed

lemma onload_dims:
  "canvas_width (onload nw nh bs ic c0) = (if nw = 0 then 800 else real nw)
   \<and> canvas_height (onload nw nh bs ic c0) = (if nh = 0 then 600 else real nh)"
  by (simp add: onload_def Let_def fold_process_block_dims)

lemma onload_objects:
  "objects (onload nw nh bs ic c0) =
     objects (fold (process_block ic (canvas_width (onload nw nh bs ic c0))
                                     (canvas_height (onload nw nh bs ic c0))) bs
                (c0\<lparr>objects := [], canvas_width := canvas_width (onload nw nh bs ic c0),
                    canvas_height := canvas_height (onload nw nh bs ic c0)\<rparr>))"
  by (simp add: onload_dims) (simp add: onload_def Let_def)

text \<open>
  C1 (as amended). The canvas takes the natural width and height of the image, with 800
  in place of a natural width of 0 and 600 in place of a natural height of 0. For every
  block with \<open>box_2d = [ymin, xmin, ymax, xmax]\<close>, the textbox placed for it has left
  \<open>(xmin/1000) * width\<close>, width \<open>((xmax-xmin)/1000) * width\<close>, top \<open>(ymin/1000) * height\<close>
  plus 10% of the box height \<open>((ymax-ymin)/1000) * height\<close>, and a font size of 80% of the
  box height, \<open>width\<close> and \<open>height\<close> being those of the canvas: the pixel dimensions of
  the image whenever they are not 0.
\<close>

theorem onload_textbox_geometry:
  "canvas_width (onload nw nh bs ic c0) = (if nw = 0 then 800 else real nw)
   \<and> canvas_height (onload nw nh bs ic c0) = (if nh = 0 then 600 else real nh)
   \<and> length (textboxes (objects (onload nw nh bs ic c0))) = length bs
   \<and> (\<forall>k < length bs. \<forall>ymin xmin ymax xmax.
        box_2d (bs ! k) = (ymin, xmin, ymax, xmax) \<longrightarrow>
          tb_left (textboxes (objects (onload nw nh bs ic c0)) ! k)
            = (xmin / 1000) * canvas_width (onload nw nh bs ic c0)
        \<and> tb_width (textboxes (objects (onload nw nh bs ic c0)) ! k)
            = ((xmax - xmin) / 1000) * canvas_width (onload nw nh bs ic c0)
        \<and> tb_top (textboxes (objects (onload nw nh bs ic c0)) ! k)
            = (ymin / 1000) * canvas_height (onload nw nh bs ic c0)
              + (10 / 100) * (((ymax - ymin) / 1000) * canvas_height (onload nw nh bs ic c0))
        \<and> tb_fontSize (textboxes (objects (onload nw nh bs ic c0)) ! k)
            = (80 / 100) * (((ymax - ymin) / 1000) * canvas_height (onload nw nh bs ic c0)))
   \<and> (0 < nw \<longrightarrow> canvas_width (onload nw nh bs ic c0) = real nw)
   \<and> (0 < nh \<longrightarrow> canvas_height (onload nw nh bs ic c0) = real nh)"
proof -
  let ?c = "onload nw nh bs ic c0"
  let ?W = "canvas_width ?c" and ?H = "canvas_height ?c"
  let ?c1 = "c0\<lparr>objects := [], canvas_width := ?W, canvas_height := ?H\<rparr>"
  have obj: "objects ?c = objects (fold (process_block ic ?W ?H) bs ?c1)"
    by (rule onload_objects)
  have emp: "textboxes (objects ?c1) = []" by simp
  have len: "length (textboxes (objects ?c)) = length bs"
    unfolding obj by (simp add: fold_process_block_textboxes_length)
  have geo: "tb_left (textboxes (objects ?c) ! k) = (xmin / 1000) * ?W
        \<and> tb_width (textboxes (objects ?c) ! k) = ((xmax - xmin) / 1000) * ?W
        \<and> tb_top (textboxes (objects ?c) ! k)
            = (ymin / 1000) * ?H + (10 / 100) * (((ymax - ymin) / 1000) * ?H)
        \<and> tb_fontSize (textboxes (objects ?c) ! k) = (80 / 100) * (((ymax - ymin) / 1000) * ?H)"
    if k: "k < length bs" and bx: "box_2d (bs ! k) = (ymin, xmin, ymax, xmax)"
    for k ymin xmin ymax xmax
  proof -
    from fold_process_block_textboxes_nth [OF k bx, of ic ?W ?H ?c1]
    have "textboxes (objects ?c) ! k =
      \<lparr>tb_text = currentText (bs ! k), tb_left = (xmin / 1000) * ?W,
       tb_top = (ymin / 1000) * ?H + (((ymax - ymin) / 1000) * ?H) * 0.1,
       tb_width = ((xmax - xmin) / 1000) * ?W,
       tb_fontSize = (((ymax - ymin) / 1000) * ?H) * 0.8,
       tb_fontFamily = (if fontFamily (bs ! k) = ''serif'' then ''Times New Roman''
                      else if fontFamily (bs ! k) = ''monospace'' then ''Courier New''
                      else if fontFamily (bs ! k) = ''cursive'' then ''Brush Script MT''
                      else ''Arial''),
       tb_fontWeight = fontWeight (bs ! k), tb_fill = textColor (bs ! k),
       tb_textAlign = ''center'', tb_editable = True\<rparr>"
      unfolding obj [symmetric] emp by simp
    then show ?thesis by simp
  qed
  from len geo onload_dims [of nw nh bs ic c0] show ?thesis by auto
qed

theorem onload_textbox_geometry_witness:
  "(0::nat) < length [\<lparr>originalText = ''Hi'', box_2d = (100, 200, 300, 400), textColor = ''#000000'',
       backgroundColor = ''#FFFFFF'', fontFamily = ''serif'', fontWeight = ''bold'',
       block_id = ''a'', currentText = ''Hi''\<rparr>] \<and> box_2d ([\<lparr>originalText = ''Hi'', box_2d = (100, 200, 300, 400), textColor = ''#000000'',
       backgroundColor = ''#FFFFFF'', fontFamily = ''serif'', fontWeight = ''bold'',
       block_id = ''a'', currentText = ''Hi''\<rparr>] ! 0) = (100, 200, 300, 400)
   \<and> (0::nat) < 1000 \<and> (0::nat) < 500
   \<and> tb_left (textboxes (objects (onload 1000 500 [\<lparr>originalText = ''Hi'', box_2d = (100, 200, 300, 400), textColor = ''#000000'',
       backgroundColor = ''#FFFFFF'', fontFamily = ''serif'', fontWeight = ''bold'',
       block_id = ''a'', currentText = ''Hi''\<rparr>] True \<lparr>canvas_width = 800, canvas_height = 600, objects = []\<rparr>)) ! 0) = 200
   \<and> tb_width (textboxes (objects (onload 1000 500 [\<lparr>originalText = ''Hi'', box_2d = (100, 200, 300, 400), textColor = ''#000000'',
       backgroundColor = ''#FFFFFF'', fontFamily = ''serif'', fontWeight = ''bold'',
       block_id = ''a'', currentText = ''Hi''\<rparr>] True \<lparr>canvas_width = 800, canvas_height = 600, objects = []\<rparr>)) ! 0) = 200
   \<and> tb_top (textboxes (objects (onload 1000 500 [\<lparr>originalText = ''Hi'', box_2d = (100, 200, 300, 400), textColor = ''#000000'',
       backgroundColor = ''#FFFFFF'', fontFamily = ''serif'', fontWeight = ''bold'',
       block_id = ''a'', currentText = ''Hi''\<rparr>] True \<lparr>canvas_width = 800, canvas_height = 600, objects = []\<rparr>)) ! 0) = 60
   \<and> tb_fontSize (textboxes (objects (onload 1000 500 [\<lparr>originalText = ''Hi'', box_2d = (100, 200, 300, 400), textColor = ''#000000'',
       backgroundColor = ''#FFFFFF'', fontFamily = ''serif'', fontWeight = ''bold'',
       block_id = ''a'', currentText = ''Hi''\<rparr>] True \<lparr>canvas_width = 800, canvas_height = 600, objects = []\<rparr>)) ! 0) = 80"
proof -
  note T = onload_textbox_geometry [of 1000 500 "[\<lparr>originalText = ''Hi'', box_2d = (100, 200, 300, 400), textColor = ''#000000'',
       backgroundColor = ''#FFFFFF'', fontFamily = ''serif'', fontWeight = ''bold'',
       block_id = ''a'', currentText = ''Hi''\<rparr>]" True "\<lparr>canvas_width = 800, canvas_height = 600, objects = []\<rparr>"]
  have k: "(0::nat) < length [\<lparr>originalText = ''Hi'', box_2d = (100, 200, 300, 400), textColor = ''#000000'',
       backgroundColor = ''#FFFFFF'', fontFamily = ''serif'', fontWeight = ''bold'',
       block_id = ''a'', currentText = ''Hi''\<rparr>]" by simp
  have bx: "box_2d ([\<lparr>originalText = ''Hi'', box_2d = (100, 200, 300, 400), textColor = ''#000000'',
       backgroundColor = ''#FFFFFF'', fontFamily = ''serif'', fontWeight = ''bold'',
       block_id = ''a'', currentText = ''Hi''\<rparr>] ! 0) = (100, 200, 300, 400)" by simp
  from T have W: "canvas_width (onload 1000 500 [\<lparr>originalText = ''Hi'', box_2d = (100, 200, 300, 400), textColor = ''#000000'',
       backgroundColor = ''#FFFFFF'', fontFamily = ''serif'', fontWeight = ''bold'',
       block_id = ''a'', currentText = ''Hi''\<rparr>] True \<lparr>canvas_width = 800, canvas_height = 600, objects = []\<rparr>) = 1000"
    and H: "canvas_height (onload 1000 500 [\<lparr>originalText = ''Hi'', box_2d = (100, 200, 300, 400), textColor = ''#000000'',
       backgroundColor = ''#FFFFFF'', fontFamily = ''serif'', fontWeight = ''bold'',
       block_id = ''a'', currentText = ''Hi''\<rparr>] True \<lparr>canvas_width = 800, canvas_height = 600, objects = []\<rparr>) = 500" by simp_all
  from T k bx have
    "tb_left (textboxes (objects (onload 1000 500 [\<lparr>originalText = ''Hi'', box_2d = (100, 200, 300, 400), textColor = ''#000000'',
       backgroundColor = ''#FFFFFF'', fontFamily = ''serif'', fontWeight = ''bold'',
       block_id = ''a'', currentText = ''Hi''\<rparr>] True \<lparr>canvas_width = 800, canvas_height = 600, objects = []\<rparr>)) ! 0)
       = (200 / 1000) * canvas_width (onload 1000 500 [\<lparr>originalText = ''Hi'', box_2d = (100, 200, 300, 400), textColor = ''#000000'',
       backgroundColor = ''#FFFFFF'', fontFamily = ''serif'', fontWeight = ''bold'',
       block_id = ''a'', currentText = ''Hi''\<rparr>] True \<lparr>canvas_width = 800, canvas_height = 600, objects = []\<rparr>)
     \<and> tb_width (textboxes (objects (onload 1000 500 [\<lparr>originalText = ''Hi'', box_2d = (100, 200, 300, 400), textColor = ''#000000'',
       backgroundColor = ''#FFFFFF'', fontFamily = ''serif'', fontWeight = ''bold'',
       block_id = ''a'', currentText = ''Hi''\<rparr>] True \<lparr>canvas_width = 800, canvas_height = 600, objects = []\<rparr>)) ! 0)
       = ((400 - 200) / 1000) * canvas_width (onload 1000 500 [\<lparr>originalText = ''Hi'', box_2d = (100, 200, 300, 400), textColor = ''#000000'',
       backgroundColor = ''#FFFFFF'', fontFamily = ''serif'', fontWeight = ''bold'',
       block_id = ''a'', currentText = ''Hi''\<rparr>] True \<lparr>canvas_width = 800, canvas_height = 600, objects = []\<rparr>)
     \<and> tb_top (textboxes (objects (onload 1000 500 [\<lparr>originalText = ''Hi'', box_2d = (100, 200, 300, 400), textColor = ''#000000'',
       backgroundColor = ''#FFFFFF'', fontFamily = ''serif'', fontWeight = ''bold'',
       block_id = ''a'', currentText = ''Hi''\<rparr>] True \<lparr>canvas_width = 800, canvas_height = 600, objects = []\<rparr>)) ! 0)
       = (100 / 1000) * canvas_height (onload 1000 500 [\<lparr>originalText = ''Hi'', box_2d = (100, 200, 300, 400), textColor = ''#000000'',
       backgroundColor = ''#FFFFFF'', fontFamily = ''serif'', fontWeight = ''bold'',
       block_id = ''a'', currentText = ''Hi''\<rparr>] True \<lparr>canvas_width = 800, canvas_height = 600, objects = []\<rparr>)
         + (10 / 100) * (((300 - 100) / 1000) * canvas_height (onload 1000 500 [\<lparr>originalText = ''Hi'', box_2d = (100, 200, 300, 400), textColor = ''#000000'',
       backgroundColor = ''#FFFFFF'', fontFamily = ''serif'', fontWeight = ''bold'',
       block_id = ''a'', currentText = ''Hi''\<rparr>] True \<lparr>canvas_width = 800, canvas_height = 600, objects = []\<rparr>))
     \<and> tb_fontSize (textboxes (objects (onload 1000 500 [\<lparr>originalText = ''Hi'', box_2d = (100, 200, 300, 400), textColor = ''#000000'',
       backgroundColor = ''#FFFFFF'', fontFamily = ''serif'', fontWeight = ''bold'',
       block_id = ''a'', currentText = ''Hi''\<rparr>] True \<lparr>canvas_width = 800, canvas_height = 600, objects = []\<rparr>)) ! 0)
       = (80 / 100) * (((300 - 100) / 1000) * canvas_height (onload 1000 500 [\<lparr>originalText = ''Hi'', box_2d = (100, 200, 300, 400), textColor = ''#000000'',
       backgroundColor = ''#FFFFFF'', fontFamily = ''serif'', fontWeight = ''bold'',
       block_id = ''a'', currentText = ''Hi''\<rparr>] True \<lparr>canvas_width = 800, canvas_height = 600, objects = []\<rparr>))"
    by blast
  with k bx show ?thesis unfolding W H by simp
qed

text \<open>
  C1 as stated fails for an image whose natural width is 0: the box is scaled by the
  fallback width 800, so a block with \<open>xmin = 200\<close> is placed at left 160, not at
  \<open>(200/1000) * 0\<close>.
\<close>

theorem onload_zero_width_counterexample:
  "box_2d \<lparr>originalText = ''Hi'', box_2d = (100, 200, 300, 400), textColor = ''#000000'',
       backgroundColor = ''#FFFFFF'', fontFamily = ''serif'', fontWeight = ''bold'',
       block_id = ''a'', currentText = ''Hi''\<rparr> = (100, 200, 300, 400)
   \<and> tb_left (textboxes (objects (onload 0 0 [\<lparr>originalText = ''Hi'', box_2d = (100, 200, 300, 400), textColor = ''#000000'',
       backgroundColor = ''#FFFFFF'', fontFamily = ''serif'', fontWeight = ''bold'',
       block_id = ''a'', currentText = ''Hi''\<rparr>] True \<lparr>canvas_width = 800, canvas_height = 600, objects = []\<rparr>)) ! 0) = 160
   \<and> tb_left (textboxes (objects (onload 0 0 [\<lparr>originalText = ''Hi'', box_2d = (100, 200, 300, 400), textColor = ''#000000'',
       backgroundColor = ''#FFFFFF'', fontFamily = ''serif'', fontWeight = ''bold'',
       block_id = ''a'', currentText = ''Hi''\<rparr>] True \<lparr>canvas_width = 800, canvas_height = 600, objects = []\<rparr>)) ! 0) \<noteq> (200 / 1000) * real (0::nat)"
  by (simp add: onload_def process_block_def canvas_add_def Let_def)

text \<open>
  C10. When \<open>isCleaned\<close> is true, no mask rectangle is added. When it is false, there is
  exactly one mask rectangle per block, in the order of the blocks; the one of a block
  with pixel box \<open>x, y, w, h\<close> spans horizontally from \<open>x - 5% w\<close> to \<open>x + w + 5% w\<close> and
  vertically from \<open>y - 5% h\<close> to \<open>y + h + 5% h\<close>, is filled with the block's
  \<open>backgroundColor\<close>, and is neither selectable nor evented.
\<close>

theorem onload_masks:
  "(ic \<longrightarrow> maskRects (objects (onload nw nh bs ic c0)) = [])
   \<and> (\<not> ic \<longrightarrow>
        length (maskRects (objects (onload nw nh bs ic c0))) = length bs
        \<and> (\<forall>k < length bs. \<forall>ymin xmin ymax xmax x y w h.
             box_2d (bs ! k) = (ymin, xmin, ymax, xmax)
             \<and> x = (xmin / 1000) * canvas_width (onload nw nh bs ic c0)
             \<and> y = (ymin / 1000) * canvas_height (onload nw nh bs ic c0)
             \<and> w = ((xmax - xmin) / 1000) * canvas_width (onload nw nh bs ic c0)
             \<and> h = ((ymax - ymin) / 1000) * canvas_height (onload nw nh bs ic c0) \<longrightarrow>
               rect_left (maskRects (objects (onload nw nh bs ic c0)) ! k) = x - (5 / 100) * w
             \<and> rect_left (maskRects (objects (onload nw nh bs ic c0)) ! k)
                 + rect_width (maskRects (objects (onload nw nh bs ic c0)) ! k) = x + w + (5 / 100) * w
             \<and> rect_top (maskRects (objects (onload nw nh bs ic c0)) ! k) = y - (5 / 100) * h
             \<and> rect_top (maskRects (objects (onload nw nh bs ic c0)) ! k)
                 + rect_height (maskRects (objects (onload nw nh bs ic c0)) ! k) = y + h + (5 / 100) * h
             \<and> rect_fill (maskRects (objects (onload nw nh bs ic c0)) ! k) = backgroundColor (bs ! k)
             \<and> \<not> rect_selectable (maskRects (objects (onload nw nh bs ic c0)) ! k)
             \<and> \<not> rect_evented (maskRects (objects (onload nw nh bs ic c0)) ! k)))"
proof -
  let ?c = "onload nw nh bs ic c0"
  let ?W = "canvas_width ?c" and ?H = "canvas_height ?c"
  let ?c1 = "c0\<lparr>objects := [], canvas_width := ?W, canvas_height := ?H\<rparr>"
  have obj: "objects ?c = objects (fold (process_block ic ?W ?H) bs ?c1)"
    by (rule onload_objects)
  note M = fold_process_block_maskRects [of ic ?W ?H bs ?c1, folded obj]
  have cleaned: "ic \<Longrightarrow> maskRects (objects ?c) = []"
    using M by simp
  have len: "\<not> ic \<Longrightarrow> length (maskRects (objects ?c)) = length bs"
    using M by simp
  have geo: "rect_left (maskRects (objects ?c) ! k) = x - (5 / 100) * w
             \<and> rect_left (maskRects (objects ?c) ! k) + rect_width (maskRects (objects ?c) ! k)
                 = x + w + (5 / 100) * w
             \<and> rect_top (maskRects (objects ?c) ! k) = y - (5 / 100) * h
             \<and> rect_top (maskRects (objects ?c) ! k) + rect_height (maskRects (objects ?c) ! k)
                 = y + h + (5 / 100) * h
             \<and> rect_fill (maskRects (objects ?c) ! k) = backgroundColor (bs ! k)
             \<and> \<not> rect_selectable (maskRects (objects ?c) ! k)
             \<and> \<not> rect_evented (maskRects (objects ?c) ! k)"
    if nc: "\<not> ic" and k: "k < length bs" and bx: "box_2d (bs ! k) = (ymin, xmin, ymax, xmax)"
      and x: "x = (xmin / 1000) * ?W" and y: "y = (ymin / 1000) * ?H"
      and w: "w = ((xmax - xmin) / 1000) * ?W" and h: "h = ((ymax - ymin) / 1000) * ?H"
    for k ymin xmin ymax xmax x y w h
  proof -
    from M nc k bx have "maskRects (objects ?c) ! k =
        \<lparr>rect_left = (xmin / 1000) * ?W - (((xmax - xmin) / 1000) * ?W) * 0.05,
         rect_top = (ymin / 1000) * ?H - (((ymax - ymin) / 1000) * ?H) * 0.05,
         rect_width = ((xmax - xmin) / 1000) * ?W + ((((xmax - xmin) / 1000) * ?W) * 0.05) * 2,
         rect_height = ((ymax - ymin) / 1000) * ?H + ((((ymax - ymin) / 1000) * ?H) * 0.05) * 2,
         rect_fill = backgroundColor (bs ! k), rect_selectable = False,
         rect_evented = False, rect_excludeFromExport = False\<rparr>"
      by simp
    then show ?thesis unfolding x y w h by simp
  qed
  from cleaned len geo show ?thesis by blast
qed

theorem onload_masks_witness:
  "\<not> False \<and> (0::nat) < length [\<lparr>originalText = ''Hi'', box_2d = (100, 200, 300, 400), textColor = ''#000000'',
       backgroundColor = ''#FFFFFF'', fontFamily = ''serif'', fontWeight = ''bold'',
       block_id = ''a'', currentText = ''Hi''\<rparr>] \<and> box_2d ([\<lparr>originalText = ''Hi'', box_2d = (100, 200, 300, 400), textColor = ''#000000'',
       backgroundColor = ''#FFFFFF'', fontFamily = ''serif'', fontWeight = ''bold'',
       block_id = ''a'', currentText = ''Hi''\<rparr>] ! 0) = (100, 200, 300, 400)
   \<and> length (maskRects (objects (onload 1000 500 [\<lparr>originalText = ''Hi'', box_2d = (100, 200, 300, 400), textColor = ''#000000'',
       backgroundColor = ''#FFFFFF'', fontFamily = ''serif'', fontWeight = ''bold'',
       block_id = ''a'', currentText = ''Hi''\<rparr>] False \<lparr>canvas_width = 800, canvas_height = 600, objects = []\<rparr>))) = 1
   \<and> rect_left (maskRects (objects (onload 1000 500 [\<lparr>originalText = ''Hi'', box_2d = (100, 200, 300, 400), textColor = ''#000000'',
       backgroundColor = ''#FFFFFF'', fontFamily = ''serif'', fontWeight = ''bold'',
       block_id = ''a'', currentText = ''Hi''\<rparr>] False \<lparr>canvas_width = 800, canvas_height = 600, objects = []\<rparr>)) ! 0) = 190
   \<and> rect_left (maskRects (objects (onload 1000 500 [\<lparr>originalText = ''Hi'', box_2d = (100, 200, 300, 400), textColor = ''#000000'',
       backgroundColor = ''#FFFFFF'', fontFamily = ''serif'', fontWeight = ''bold'',
       block_id = ''a'', currentText = ''Hi''\<rparr>] False \<lparr>canvas_width = 800, canvas_height = 600, objects = []\<rparr>)) ! 0)
       + rect_width (maskRects (objects (onload 1000 500 [\<lparr>originalText = ''Hi'', box_2d = (100, 200, 300, 400), textColor = ''#000000'',
       backgroundColor = ''#FFFFFF'', fontFamily = ''serif'', fontWeight = ''bold'',
       block_id = ''a'', currentText = ''Hi''\<rparr>] False \<lparr>canvas_width = 800, canvas_height = 600, objects = []\<rparr>)) ! 0) = 410
   \<and> rect_top (maskRects (objects (onload 1000 500 [\<lparr>originalText = ''Hi'', box_2d = (100, 200, 300, 400), textColor = ''#000000'',
       backgroundColor = ''#FFFFFF'', fontFamily = ''serif'', fontWeight = ''bold'',
       block_id = ''a'', currentText = ''Hi''\<rparr>] False \<lparr>canvas_width = 800, canvas_height = 600, objects = []\<rparr>)) ! 0) = 45
   \<and> rect_top (maskRects (objects (onload 1000 500 [\<lparr>originalText = ''Hi'', box_2d = (100, 200, 300, 400), textColor = ''#000000'',
       backgroundColor = ''#FFFFFF'', fontFamily = ''serif'', fontWeight = ''bold'',
       block_id = ''a'', currentText = ''Hi''\<rparr>] False \<lparr>canvas_width = 800, canvas_height = 600, objects = []\<rparr>)) ! 0)
       + rect_height (maskRects (objects (onload 1000 500 [\<lparr>originalText = ''Hi'', box_2d = (100, 200, 300, 400), textColor = ''#000000'',
       backgroundColor = ''#FFFFFF'', fontFamily = ''serif'', fontWeight = ''bold'',
       block_id = ''a'', currentText = ''Hi''\<rparr>] False \<lparr>canvas_width = 800, canvas_height = 600, objects = []\<rparr>)) ! 0) = 155
   \<and> rect_fill (maskRects (objects (onload 1000 500 [\<lparr>originalText = ''Hi'', box_2d = (100, 200, 300, 400), textColor = ''#000000'',
       backgroundColor = ''#FFFFFF'', fontFamily = ''serif'', fontWeight = ''bold'',
       block_id = ''a'', currentText = ''Hi''\<rparr>] False \<lparr>canvas_width = 800, canvas_height = 600, objects = []\<rparr>)) ! 0) = ''#FFFFFF''
   \<and> maskRects (objects (onload 1000 500 [\<lparr>originalText = ''Hi'', box_2d = (100, 200, 300, 400), textColor = ''#000000'',
       backgroundColor = ''#FFFFFF'', fontFamily = ''serif'', fontWeight = ''bold'',
       block_id = ''a'', currentText = ''Hi''\<rparr>] True \<lparr>canvas_width = 800, canvas_height = 600, objects = []\<rparr>)) = []"
proof -
  let ?c = "onload 1000 500 [\<lparr>originalText = ''Hi'', box_2d = (100, 200, 300, 400), textColor = ''#000000'',
       backgroundColor = ''#FFFFFF'', fontFamily = ''serif'', fontWeight = ''bold'',
       block_id = ''a'', currentText = ''Hi''\<rparr>] False \<lparr>canvas_width = 800, canvas_height = 600, objects = []\<rparr>"
  note T = onload_masks [of False 1000 500 "[\<lparr>originalText = ''Hi'', box_2d = (100, 200, 300, 400), textColor = ''#000000'',
       backgroundColor = ''#FFFFFF'', fontFamily = ''serif'', fontWeight = ''bold'',
       block_id = ''a'', currentText = ''Hi''\<rparr>]" "\<lparr>canvas_width = 800, canvas_height = 600, objects = []\<rparr>"]
  have k: "(0::nat) < length [\<lparr>originalText = ''Hi'', box_2d = (100, 200, 300, 400), textColor = ''#000000'',
       backgroundColor = ''#FFFFFF'', fontFamily = ''serif'', fontWeight = ''bold'',
       block_id = ''a'', currentText = ''Hi''\<rparr>]" by simp
  have bx: "box_2d ([\<lparr>originalText = ''Hi'', box_2d = (100, 200, 300, 400), textColor = ''#000000'',
       backgroundColor = ''#FFFFFF'', fontFamily = ''serif'', fontWeight = ''bold'',
       block_id = ''a'', currentText = ''Hi''\<rparr>] ! 0) = (100, 200, 300, 400)" by simp
  have W: "canvas_width ?c = 1000" and H: "canvas_height ?c = 500"
    by (simp_all add: onload_dims)
  from T have len: "length (maskRects (objects ?c)) = length [\<lparr>originalText = ''Hi'', box_2d = (100, 200, 300, 400), textColor = ''#000000'',
       backgroundColor = ''#FFFFFF'', fontFamily = ''serif'', fontWeight = ''bold'',
       block_id = ''a'', currentText = ''Hi''\<rparr>]" by blast
  from T have "\<forall>k < length [\<lparr>originalText = ''Hi'', box_2d = (100, 200, 300, 400), textColor = ''#000000'',
       backgroundColor = ''#FFFFFF'', fontFamily = ''serif'', fontWeight = ''bold'',
       block_id = ''a'', currentText = ''Hi''\<rparr>]. \<forall>ymin xmin ymax xmax x y w h.
             box_2d ([\<lparr>originalText = ''Hi'', box_2d = (100, 200, 300, 400), textColor = ''#000000'',
       backgroundColor = ''#FFFFFF'', fontFamily = ''serif'', fontWeight = ''bold'',
       block_id = ''a'', currentText = ''Hi''\<rparr>] ! k) = (ymin, xmin, ymax, xmax)
             \<and> x = (xmin / 1000) * canvas_width ?c
             \<and> y = (ymin / 1000) * canvas_height ?c
             \<and> w = ((xmax - xmin) / 1000) * canvas_width ?c
             \<and> h = ((ymax - ymin) / 1000) * canvas_height ?c \<longrightarrow>
               rect_left (maskRects (objects ?c) ! k) = x - (5 / 100) * w
             \<and> rect_left (maskRects (objects ?c) ! k)
                 + rect_width (maskRects (objects ?c) ! k) = x + w + (5 / 100) * w
             \<and> rect_top (maskRects (objects ?c) ! k) = y - (5 / 100) * h
             \<and> rect_top (maskRects (objects ?c) ! k)
                 + rect_height (maskRects (objects ?c) ! k) = y + h + (5 / 100) * h
             \<and> rect_fill (maskRects (objects ?c) ! k) = backgroundColor ([\<lparr>originalText = ''Hi'', box_2d = (100, 200, 300, 400), textColor = ''#000000'',
       backgroundColor = ''#FFFFFF'', fontFamily = ''serif'', fontWeight = ''bold'',
       block_id = ''a'', currentText = ''Hi''\<rparr>] ! k)
             \<and> \<not> rect_selectable (maskRects (objects ?c) ! k)
             \<and> \<not> rect_evented (maskRects (objects ?c) ! k)"
    by blast
  from this [rule_format, of 0 100 200 300 400 "(200 / 1000) * 1000" "(100 / 1000) * 500"
      "((400 - 200) / 1000) * 1000" "((300 - 100) / 1000) * 500"] k bx W H
  have geo: "rect_left (maskRects (objects ?c) ! 0) = 190
     \<and> rect_left (maskRects (objects ?c) ! 0) + rect_width (maskRects (objects ?c) ! 0) = 410
     \<and> rect_top (maskRects (objects ?c) ! 0) = 45
     \<and> rect_top (maskRects (objects ?c) ! 0) + rect_height (maskRects (objects ?c) ! 0) = 155
     \<and> rect_fill (maskRects (objects ?c) ! 0) = ''#FFFFFF''"
    by simp
  from onload_masks [of True 1000 500 "[\<lparr>originalText = ''Hi'', box_2d = (100, 200, 300, 400), textColor = ''#000000'',
       backgroundColor = ''#FFFFFF'', fontFamily = ''serif'', fontWeight = ''bold'',
       block_id = ''a'', currentText = ''Hi''\<rparr>]" "\<lparr>canvas_width = 800, canvas_height = 600, objects = []\<rparr>"]
  have cl: "maskRects (objects (onload 1000 500 [\<lparr>originalText = ''Hi'', box_2d = (100, 200, 300, 400), textColor = ''#000000'',
       backgroundColor = ''#FFFFFF'', fontFamily = ''serif'', fontWeight = ''bold'',
       block_id = ''a'', currentText = ''Hi''\<rparr>] True \<lparr>canvas_width = 800, canvas_height = 600, objects = []\<rparr>)) = []" by simp
  from k bx len geo cl show ?thesis by simp
qed

subsection \<open>The persistence layer\<close>

lemma find_insort_key_hit:
  "P x \<Longrightarrow> \<forall>y \<in> set xs. \<not> P y \<Longrightarrow> find P (insort_key f x xs) = Some x"
  by (induction xs) auto

lemma find_insort_key_miss:
  "\<not> P x \<Longrightarrow> find P (insort_key f x xs) = find P xs"
  by (induction xs) auto

lemma find_filter_weaker:
  "(\<And>y. P y \<Longrightarrow> Q y) \<Longrightarrow> find P (filter Q xs) = find P xs"
  by (induction xs) auto

lemma db_get_put_same: "db_get (project_id p) (db_put p s) = Some p"
  unfolding db_get_def db_put_def by (rule find_insort_key_hit) auto

lemma db_get_put_other: "k \<noteq> project_id p \<Longrightarrow> db_get k (db_put p s) = db_get k s"
  unfolding db_get_def db_put_def
  by (simp add: find_insort_key_miss) (rule find_filter_weaker, auto)

lemma db_get_None_iff: "db_get k s = None \<longleftrightarrow> k \<notin> project_id ` set s"
  unfolding db_get_def by (auto simp: find_None_iff)

lemma db_get_Some_id: "db_get k s = Some p \<Longrightarrow> project_id p = k \<and> p \<in> set s"
  unfolding db_get_def by (auto simp: find_Some_iff)

lemma set_db_put_fresh:
  "project_id p \<notin> project_id ` set s \<Longrightarrow> set (db_put p s) = insert p (set s)"
proof -
  assume fresh: "project_id p \<notin> project_id ` set s"
  have "filter (\<lambda>q. project_id q \<noteq> project_id p) s = s"
    using fresh by (induction s) auto
  then show ?thesis by (simp add: db_put_def set_insort_key)
qed

lemma createProject_unfold:
  "createProject nm img bs w =
     (uuids w (uuid_draws w),
      w\<lparr>uuid_draws := Suc (uuid_draws w), clock_reads := Suc (Suc (clock_reads w)),
        store := db_put \<lparr>project_id = uuids w (uuid_draws w), name = nm,
                         createdAt = clock w (clock_reads w),
                         updatedAt = clock w (Suc (clock_reads w)),
                         originalImage = img, processedImage = None, blocks = bs\<rparr> (store w)\<rparr>)"
  by (simp add: createProject_def uuidv4_def Date_now_def Let_def)

lemma set_db_put: "set (db_put p s) = insert p {q \<in> set s. project_id q \<noteq> project_id p}"
  by (auto simp: db_put_def set_insort_key)

text \<open>
  C2 (as amended). For every name, source image and block list, \<open>createProject\<close>
  generates a fresh key: the next value drawn from \<open>uuidv4\<close>, which the call consumes, so
  that it differs from every key drawn before and from every stored key whenever the
  generator does not repeat a value and the stored keys were drawn from it. It stores
  under that key a record with exactly that name, that image as \<open>originalImage\<close>, those
  blocks, \<open>processedImage\<close> null, \<open>createdAt\<close> the first and \<open>updatedAt\<close> the second of two
  successive readings of the clock (equal whenever the clock does not advance between
  the two), and returns the key. \<open>getProject\<close> on the returned key then yields exactly
  that record, every other key reads as before, and a key that is not stored yields
  nothing. When the key was not stored before, the store gains that one record and
  loses none.
\<close>

theorem createProject_getProject:
  "createProject nm img bs w = (k, w') \<Longrightarrow>
     k = uuids w (uuid_draws w)
   \<and> uuid_draws w' = Suc (uuid_draws w) \<and> uuids w' = uuids w
   \<and> getProject k w' =
       Some \<lparr>project_id = k, name = nm, createdAt = clock w (clock_reads w),
             updatedAt = clock w (Suc (clock_reads w)),
             originalImage = img, processedImage = None, blocks = bs\<rparr>
   \<and> (clock w (Suc (clock_reads w)) = clock w (clock_reads w) \<longrightarrow>
        map_option updatedAt (getProject k w') = map_option createdAt (getProject k w'))
   \<and> (\<forall>j. j \<noteq> k \<longrightarrow> getProject j w' = getProject j w)
   \<and> (\<forall>j. j \<notin> project_id ` set (store w') \<longrightarrow> getProject j w' = None)
   \<and> (k \<notin> project_id ` set (store w) \<longrightarrow>
        set (store w') = insert \<lparr>project_id = k, name = nm, createdAt = clock w (clock_reads w),
             updatedAt = clock w (Suc (clock_reads w)),
             originalImage = img, processedImage = None, blocks = bs\<rparr> (set (store w)))
   \<and> (inj (uuids w) \<longrightarrow> (\<forall>n < uuid_draws w. k \<noteq> uuids w n))
   \<and> (inj (uuids w) \<and> project_id ` set (store w) \<subseteq> uuids w ` {..<uuid_draws w} \<longrightarrow>
        k \<notin> project_id ` set (store w)
        \<and> getProject k w = None
        \<and> project_id ` set (store w') \<subseteq> uuids w' ` {..<uuid_draws w'})"
proof -
  assume cp: "createProject nm img bs w = (k, w')"
  let ?p = "\<lparr>project_id = uuids w (uuid_draws w), name = nm, createdAt = clock w (clock_reads w),
             updatedAt = clock w (Suc (clock_reads w)),
             originalImage = img, processedImage = None, blocks = bs\<rparr>"
  from cp have k: "k = uuids w (uuid_draws w)"
    and st: "store w' = db_put ?p (store w)"
    and dr: "uuid_draws w' = Suc (uuid_draws w)" and gen: "uuids w' = uuids w"
    by (auto simp: createProject_unfold)
  have kp: "project_id ?p = k" by (simp add: k)
  have got: "getProject k w' = Some ?p"
    unfolding getProject_def st using db_get_put_same [of ?p "store w"] by (simp add: k)
  have other: "getProject j w' = getProject j w" if "j \<noteq> k" for j
    unfolding getProject_def st using that by (simp add: db_get_put_other k)
  have absent: "getProject j w' = None" if "j \<notin> project_id ` set (store w')" for j
    unfolding getProject_def using that by (simp add: db_get_None_iff)
  have fresh: "set (store w') = insert ?p (set (store w))" if "k \<notin> project_id ` set (store w)"
    unfolding st using that by (intro set_db_put_fresh) (simp add: k)
  have earlier: "k \<noteq> uuids w n" if "inj (uuids w)" "n < uuid_draws w" for n
  proof
    assume "k = uuids w n"
    with k that(1) have "uuid_draws w = n" by (simp add: inj_eq)
    with that(2) show False by simp
  qed
  have unused: "k \<notin> project_id ` set (store w)"
    if i: "inj (uuids w)" and sub: "project_id ` set (store w) \<subseteq> uuids w ` {..<uuid_draws w}"
  proof
    assume "k \<in> project_id ` set (store w)"
    with sub obtain n where "n < uuid_draws w" "k = uuids w n" by auto
    with earlier [OF i] show False by blast
  qed
  have inv: "project_id ` set (store w') \<subseteq> uuids w' ` {..<uuid_draws w'}"
    if sub: "project_id ` set (store w) \<subseteq> uuids w ` {..<uuid_draws w}"
  proof
    fix j assume "j \<in> project_id ` set (store w')"
    then obtain q where q: "q \<in> set (store w')" "j = project_id q" by auto
    from q(1) have "q = ?p \<or> q \<in> set (store w)" unfolding st by (auto simp: set_db_put)
    then show "j \<in> uuids w' ` {..<uuid_draws w'}"
    proof
      assume "q = ?p"
      with q(2) have "j = uuids w (uuid_draws w)" by simp
      then show ?thesis unfolding gen dr by (auto simp: lessThan_Suc)
    next
      assume "q \<in> set (store w)"
      with q(2) sub obtain n where "n < uuid_draws w" "j = uuids w n" by auto
      then show ?thesis unfolding gen dr by (auto simp: lessThan_Suc)
    qed
  qed
  have none: "getProject k w = None"
    if "inj (uuids w)" "project_id ` set (store w) \<subseteq> uuids w ` {..<uuid_draws w}"
    using unused [OF that] by (simp add: getProject_def db_get_None_iff)
  have B: "getProject k w' =
       Some \<lparr>project_id = k, name = nm, createdAt = clock w (clock_reads w),
             updatedAt = clock w (Suc (clock_reads w)),
             originalImage = img, processedImage = None, blocks = bs\<rparr>"
    using got by (simp add: k)
  have C: "clock w (Suc (clock_reads w)) = clock w (clock_reads w) \<longrightarrow>
        map_option updatedAt (getProject k w') = map_option createdAt (getProject k w')"
    using got by simp
  have D: "\<forall>j. j \<noteq> k \<longrightarrow> getProject j w' = getProject j w"
    using other by simp
  have E: "\<forall>j. j \<notin> project_id ` set (store w') \<longrightarrow> getProject j w' = None"
    using absent by simp
  have F: "k \<notin> project_id ` set (store w) \<longrightarrow>
        set (store w') = insert \<lparr>project_id = k, name = nm, createdAt = clock w (clock_reads w),
             updatedAt = clock w (Suc (clock_reads w)),
             originalImage = img, processedImage = None, blocks = bs\<rparr> (set (store w))"
    using fresh by (simp add: k)
  have G: "inj (uuids w) \<longrightarrow> (\<forall>n < uuid_draws w. k \<noteq> uuids w n)"
    using earlier by simp
  have H: "inj (uuids w) \<and> project_id ` set (store w) \<subseteq> uuids w ` {..<uuid_draws w} \<longrightarrow>
        k \<notin> project_id ` set (store w)
        \<and> getProject k w = None
        \<and> project_id ` set (store w') \<subseteq> uuids w' ` {..<uuid_draws w'}"
    using unused none inv by simp
  show ?thesis by (intro conjI; fact k dr gen B C D E F G H)
qed

theorem createProject_getProject_witness:
  "createProject ''photo'' ''img'' [] \<lparr>store = [\<lparr>project_id = ''u'', name = ''first'', createdAt = 900, updatedAt = 900,
        originalImage = ''img0'', processedImage = None, blocks = []\<rparr>], clock = (\<lambda>n. 1000), clock_reads = 0,
       uuids = (\<lambda>n. replicate (Suc n) CHR ''u''), uuid_draws = 1,
       replies = (\<lambda>n. Inl (NetworkError ''offline'')), sent = [],
       aistudio = None, alerts = [], location = ''/''\<rparr>
     = (fst (createProject ''photo'' ''img'' [] \<lparr>store = [\<lparr>project_id = ''u'', name = ''first'', createdAt = 900, updatedAt = 900,
        originalImage = ''img0'', processedImage = None, blocks = []\<rparr>], clock = (\<lambda>n. 1000), clock_reads = 0,
       uuids = (\<lambda>n. replicate (Suc n) CHR ''u''), uuid_draws = 1,
       replies = (\<lambda>n. Inl (NetworkError ''offline'')), sent = [],
       aistudio = None, alerts = [], location = ''/''\<rparr>), snd (createProject ''photo'' ''img'' [] \<lparr>store = [\<lparr>project_id = ''u'', name = ''first'', createdAt = 900, updatedAt = 900,
        originalImage = ''img0'', processedImage = None, blocks = []\<rparr>], clock = (\<lambda>n. 1000), clock_reads = 0,
       uuids = (\<lambda>n. replicate (Suc n) CHR ''u''), uuid_draws = 1,
       replies = (\<lambda>n. Inl (NetworkError ''offline'')), sent = [],
       aistudio = None, alerts = [], location = ''/''\<rparr>))
   \<and> inj (uuids \<lparr>store = [\<lparr>project_id = ''u'', name = ''first'', createdAt = 900, updatedAt = 900,
        originalImage = ''img0'', processedImage = None, blocks = []\<rparr>], clock = (\<lambda>n. 1000), clock_reads = 0,
       uuids = (\<lambda>n. replicate (Suc n) CHR ''u''), uuid_draws = 1,
       replies = (\<lambda>n. Inl (NetworkError ''offline'')), sent = [],
       aistudio = None, alerts = [], location = ''/''\<rparr>)
   \<and> project_id ` set (store \<lparr>store = [\<lparr>project_id = ''u'', name = ''first'', createdAt = 900, updatedAt = 900,
        originalImage = ''img0'', processedImage = None, blocks = []\<rparr>], clock = (\<lambda>n. 1000), clock_reads = 0,
       uuids = (\<lambda>n. replicate (Suc n) CHR ''u''), uuid_draws = 1,
       replies = (\<lambda>n. Inl (NetworkError ''offline'')), sent = [],
       aistudio = None, alerts = [], location = ''/''\<rparr>) \<subseteq> uuids \<lparr>store = [\<lparr>project_id = ''u'', name = ''first'', createdAt = 900, updatedAt = 900,
        originalImage = ''img0'', processedImage = None, blocks = []\<rparr>], clock = (\<lambda>n. 1000), clock_reads = 0,
       uuids = (\<lambda>n. replicate (Suc n) CHR ''u''), uuid_draws = 1,
       replies = (\<lambda>n. Inl (NetworkError ''offline'')), sent = [],
       aistudio = None, alerts = [], location = ''/''\<rparr> ` {..<uuid_draws \<lparr>store = [\<lparr>project_id = ''u'', name = ''first'', createdAt = 900, updatedAt = 900,
        originalImage = ''img0'', processedImage = None, blocks = []\<rparr>], clock = (\<lambda>n. 1000), clock_reads = 0,
       uuids = (\<lambda>n. replicate (Suc n) CHR ''u''), uuid_draws = 1,
       replies = (\<lambda>n. Inl (NetworkError ''offline'')), sent = [],
       aistudio = None, alerts = [], location = ''/''\<rparr>}
   \<and> clock \<lparr>store = [\<lparr>project_id = ''u'', name = ''first'', createdAt = 900, updatedAt = 900,
        originalImage = ''img0'', processedImage = None, blocks = []\<rparr>], clock = (\<lambda>n. 1000), clock_reads = 0,
       uuids = (\<lambda>n. replicate (Suc n) CHR ''u''), uuid_draws = 1,
       replies = (\<lambda>n. Inl (NetworkError ''offline'')), sent = [],
       aistudio = None, alerts = [], location = ''/''\<rparr> (Suc (clock_reads \<lparr>store = [\<lparr>project_id = ''u'', name = ''first'', createdAt = 900, updatedAt = 900,
        originalImage = ''img0'', processedImage = None, blocks = []\<rparr>], clock = (\<lambda>n. 1000), clock_reads = 0,
       uuids = (\<lambda>n. replicate (Suc n) CHR ''u''), uuid_draws = 1,
       replies = (\<lambda>n. Inl (NetworkError ''offline'')), sent = [],
       aistudio = None, alerts = [], location = ''/''\<rparr>)) = clock \<lparr>store = [\<lparr>project_id = ''u'', name = ''first'', createdAt = 900, updatedAt = 900,
        originalImage = ''img0'', processedImage = None, blocks = []\<rparr>], clock = (\<lambda>n. 1000), clock_reads = 0,
       uuids = (\<lambda>n. replicate (Suc n) CHR ''u''), uuid_draws = 1,
       replies = (\<lambda>n. Inl (NetworkError ''offline'')), sent = [],
       aistudio = None, alerts = [], location = ''/''\<rparr> (clock_reads \<lparr>store = [\<lparr>project_id = ''u'', name = ''first'', createdAt = 900, updatedAt = 900,
        originalImage = ''img0'', processedImage = None, blocks = []\<rparr>], clock = (\<lambda>n. 1000), clock_reads = 0,
       uuids = (\<lambda>n. replicate (Suc n) CHR ''u''), uuid_draws = 1,
       replies = (\<lambda>n. Inl (NetworkError ''offline'')), sent = [],
       aistudio = None, alerts = [], location = ''/''\<rparr>)
   \<and> fst (createProject ''photo'' ''img'' [] \<lparr>store = [\<lparr>project_id = ''u'', name = ''first'', createdAt = 900, updatedAt = 900,
        originalImage = ''img0'', processedImage = None, blocks = []\<rparr>], clock = (\<lambda>n. 1000), clock_reads = 0,
       uuids = (\<lambda>n. replicate (Suc n) CHR ''u''), uuid_draws = 1,
       replies = (\<lambda>n. Inl (NetworkError ''offline'')), sent = [],
       aistudio = None, alerts = [], location = ''/''\<rparr>) = ''uu''
   \<and> ''uu'' \<notin> project_id ` set (store \<lparr>store = [\<lparr>project_id = ''u'', name = ''first'', createdAt = 900, updatedAt = 900,
        originalImage = ''img0'', processedImage = None, blocks = []\<rparr>], clock = (\<lambda>n. 1000), clock_reads = 0,
       uuids = (\<lambda>n. replicate (Suc n) CHR ''u''), uuid_draws = 1,
       replies = (\<lambda>n. Inl (NetworkError ''offline'')), sent = [],
       aistudio = None, alerts = [], location = ''/''\<rparr>)
   \<and> getProject ''uu'' \<lparr>store = [\<lparr>project_id = ''u'', name = ''first'', createdAt = 900, updatedAt = 900,
        originalImage = ''img0'', processedImage = None, blocks = []\<rparr>], clock = (\<lambda>n. 1000), clock_reads = 0,
       uuids = (\<lambda>n. replicate (Suc n) CHR ''u''), uuid_draws = 1,
       replies = (\<lambda>n. Inl (NetworkError ''offline'')), sent = [],
       aistudio = None, alerts = [], location = ''/''\<rparr> = None
   \<and> getProject ''uu'' (snd (createProject ''photo'' ''img'' [] \<lparr>store = [\<lparr>project_id = ''u'', name = ''first'', createdAt = 900, updatedAt = 900,
        originalImage = ''img0'', processedImage = None, blocks = []\<rparr>], clock = (\<lambda>n. 1000), clock_reads = 0,
       uuids = (\<lambda>n. replicate (Suc n) CHR ''u''), uuid_draws = 1,
       replies = (\<lambda>n. Inl (NetworkError ''offline'')), sent = [],
       aistudio = None, alerts = [], location = ''/''\<rparr>)) = Some \<lparr>project_id = ''uu'', name = ''photo'', createdAt = 1000, updatedAt = 1000,
        originalImage = ''img'', processedImage = None, blocks = []\<rparr>
   \<and> getProject ''u'' (snd (createProject ''photo'' ''img'' [] \<lparr>store = [\<lparr>project_id = ''u'', name = ''first'', createdAt = 900, updatedAt = 900,
        originalImage = ''img0'', processedImage = None, blocks = []\<rparr>], clock = (\<lambda>n. 1000), clock_reads = 0,
       uuids = (\<lambda>n. replicate (Suc n) CHR ''u''), uuid_draws = 1,
       replies = (\<lambda>n. Inl (NetworkError ''offline'')), sent = [],
       aistudio = None, alerts = [], location = ''/''\<rparr>)) = Some \<lparr>project_id = ''u'', name = ''first'', createdAt = 900, updatedAt = 900,
        originalImage = ''img0'', processedImage = None, blocks = []\<rparr>
   \<and> getProject ''zz'' (snd (createProject ''photo'' ''img'' [] \<lparr>store = [\<lparr>project_id = ''u'', name = ''first'', createdAt = 900, updatedAt = 900,
        originalImage = ''img0'', processedImage = None, blocks = []\<rparr>], clock = (\<lambda>n. 1000), clock_reads = 0,
       uuids = (\<lambda>n. replicate (Suc n) CHR ''u''), uuid_draws = 1,
       replies = (\<lambda>n. Inl (NetworkError ''offline'')), sent = [],
       aistudio = None, alerts = [], location = ''/''\<rparr>)) = None
   \<and> set (store (snd (createProject ''photo'' ''img'' [] \<lparr>store = [\<lparr>project_id = ''u'', name = ''first'', createdAt = 900, updatedAt = 900,
        originalImage = ''img0'', processedImage = None, blocks = []\<rparr>], clock = (\<lambda>n. 1000), clock_reads = 0,
       uuids = (\<lambda>n. replicate (Suc n) CHR ''u''), uuid_draws = 1,
       replies = (\<lambda>n. Inl (NetworkError ''offline'')), sent = [],
       aistudio = None, alerts = [], location = ''/''\<rparr>))) = {\<lparr>project_id = ''uu'', name = ''photo'', createdAt = 1000, updatedAt = 1000,
        originalImage = ''img'', processedImage = None, blocks = []\<rparr>, \<lparr>project_id = ''u'', name = ''first'', createdAt = 900, updatedAt = 900,
        originalImage = ''img0'', processedImage = None, blocks = []\<rparr>}"
proof -
  let ?w = "\<lparr>store = [\<lparr>project_id = ''u'', name = ''first'', createdAt = 900, updatedAt = 900,
        originalImage = ''img0'', processedImage = None, blocks = []\<rparr>], clock = (\<lambda>n. 1000), clock_reads = 0,
       uuids = (\<lambda>n. replicate (Suc n) CHR ''u''), uuid_draws = 1,
       replies = (\<lambda>n. Inl (NetworkError ''offline'')), sent = [],
       aistudio = None, alerts = [], location = ''/''\<rparr>"
  let ?k = "fst (createProject ''photo'' ''img'' [] ?w)"
  let ?w' = "snd (createProject ''photo'' ''img'' [] ?w)"
  have run: "createProject ''photo'' ''img'' [] ?w = (?k, ?w')"
    by simp
  have gen: "inj (uuids ?w)"
  proof (rule injI)
    fix m n :: nat
    assume "uuids ?w m = uuids ?w n"
    then have "length (replicate (Suc m) CHR ''u'') = length (replicate (Suc n) CHR ''u'')"
      by simp
    then show "m = n" by simp
  qed
  have drawn: "project_id ` set (store ?w) \<subseteq> uuids ?w ` {..<uuid_draws ?w}"
    by simp
  have still: "clock ?w (Suc (clock_reads ?w)) = clock ?w (clock_reads ?w)" by simp
  note T = createProject_getProject [OF run]
  from T have k: "?k = ''uu''" by (simp add: numeral_2_eq_2)
  from T gen drawn have unused: "?k \<notin> project_id ` set (store ?w)" and none: "getProject ?k ?w = None"
    by blast+
  from T have got: "getProject ?k ?w' =
       Some \<lparr>project_id = ?k, name = ''photo'', createdAt = clock ?w (clock_reads ?w),
             updatedAt = clock ?w (Suc (clock_reads ?w)),
             originalImage = ''img'', processedImage = None, blocks = []\<rparr>"
    by blast
  from T have others: "\<forall>j. j \<noteq> ?k \<longrightarrow> getProject j ?w' = getProject j ?w"
    by blast
  from others have old: "getProject ''u'' ?w' = getProject ''u'' ?w"
    and zz: "getProject ''zz'' ?w' = getProject ''zz'' ?w"
    unfolding k by simp_all
  from T unused have grown: "set (store ?w') =
       insert \<lparr>project_id = ?k, name = ''photo'', createdAt = clock ?w (clock_reads ?w),
             updatedAt = clock ?w (Suc (clock_reads ?w)),
             originalImage = ''img'', processedImage = None, blocks = []\<rparr> (set (store ?w))"
    by blast
  have g1: "getProject ''uu'' ?w' = Some \<lparr>project_id = ''uu'', name = ''photo'', createdAt = 1000, updatedAt = 1000,
        originalImage = ''img'', processedImage = None, blocks = []\<rparr>"
    using got unfolding k by simp
  have g2: "getProject ''u'' ?w' = Some \<lparr>project_id = ''u'', name = ''first'', createdAt = 900, updatedAt = 900,
        originalImage = ''img0'', processedImage = None, blocks = []\<rparr>"
    using old by (simp add: getProject_def db_get_def)
  have g3: "getProject ''zz'' ?w' = None"
    using zz by (simp add: getProject_def db_get_def)
  have g4: "set (store ?w') = {\<lparr>project_id = ''uu'', name = ''photo'', createdAt = 1000, updatedAt = 1000,
        originalImage = ''img'', processedImage = None, blocks = []\<rparr>, \<lparr>project_id = ''u'', name = ''first'', createdAt = 900, updatedAt = 900,
        originalImage = ''img0'', processedImage = None, blocks = []\<rparr>}"
    using grown unfolding k by simp
  have u1: "''uu'' \<notin> project_id ` set (store ?w)" using unused unfolding k .
  have u2: "getProject ''uu'' ?w = None" using none unfolding k .
  show ?thesis by (intro conjI; fact run gen drawn still k u1 u2 g1 g2 g3 g4)
qed

text \<open>
  C2 as stated fails where it says that \<open>createdAt\<close> and \<open>updatedAt\<close> are equal: they
  come from two calls of \<open>Date.now()\<close>, and with a clock that reads 1000 and then 1001
  the stored record has \<open>createdAt = 1000\<close> and \<open>updatedAt = 1001\<close>.
\<close>

theorem createProject_timestamps_counterexample:
  "map_option createdAt
     (getProject (fst (createProject ''photo'' ''img'' [] \<lparr>store = [], clock = (\<lambda>n. 1000 + int n), clock_reads = 0, uuids = (\<lambda>n. ''u0''),
       uuid_draws = 0, replies = (\<lambda>n. Inl (NetworkError ''offline'')), sent = [],
       aistudio = None, alerts = [], location = ''/''\<rparr>))
                 (snd (createProject ''photo'' ''img'' [] \<lparr>store = [], clock = (\<lambda>n. 1000 + int n), clock_reads = 0, uuids = (\<lambda>n. ''u0''),
       uuid_draws = 0, replies = (\<lambda>n. Inl (NetworkError ''offline'')), sent = [],
       aistudio = None, alerts = [], location = ''/''\<rparr>))) = Some 1000
   \<and> map_option updatedAt
     (getProject (fst (createProject ''photo'' ''img'' [] \<lparr>store = [], clock = (\<lambda>n. 1000 + int n), clock_reads = 0, uuids = (\<lambda>n. ''u0''),
       uuid_draws = 0, replies = (\<lambda>n. Inl (NetworkError ''offline'')), sent = [],
       aistudio = None, alerts = [], location = ''/''\<rparr>))
                 (snd (createProject ''photo'' ''img'' [] \<lparr>store = [], clock = (\<lambda>n. 1000 + int n), clock_reads = 0, uuids = (\<lambda>n. ''u0''),
       uuid_draws = 0, replies = (\<lambda>n. Inl (NetworkError ''offline'')), sent = [],
       aistudio = None, alerts = [], location = ''/''\<rparr>))) = Some 1001"
  by (simp add: createProject_unfold getProject_def db_get_def db_put_def)

lemma getProject_absent: "j \<notin> project_id ` set (store w) \<Longrightarrow> getProject j w = None"
  by (simp add: getProject_def db_get_None_iff)

text \<open>
  C6. The upgrade of the database creates a single object store, \<open>projects\<close> with key
  path \<open>id\<close>, carrying exactly one index, \<open>by-date\<close> on \<open>updatedAt\<close>; and for every state
  of the store \<open>getAllProjects\<close> returns all stored projects, each as often as it is
  stored, in ascending order of \<open>updatedAt\<close>.
\<close>

theorem getAllProjects_by_date:
  "initDB = [\<lparr>store_name = ''projects'', store_keyPath = ''id'',
              store_indexes = [\<lparr>index_name = ''by-date'', index_keyPath = ''updatedAt''\<rparr>]\<rparr>]
   \<and> length initDB = 1 \<and> length (store_indexes (hd initDB)) = 1
   \<and> mset (getAllProjects w) = mset (store w)
   \<and> sorted (map updatedAt (getAllProjects w))"
  by (simp add: initDB_def upgrade_def createObjectStore_def createIndex_def
      getAllProjects_def db_getAllFromIndex_by_date_def)

theorem getAllProjects_by_date_witness:
  "getAllProjects \<lparr>store = [\<lparr>project_id = ''a1'', name = ''older'', createdAt = 500, updatedAt = 1500,
        originalImage = ''img2'', processedImage = None, blocks = []\<rparr>, \<lparr>project_id = ''u0'', name = ''photo'', createdAt = 1000, updatedAt = 1000,
        originalImage = ''img'', processedImage = None, blocks = []\<rparr>], clock = (\<lambda>n. 2000 + int n), clock_reads = 0,
       uuids = (\<lambda>n. ''u1''), uuid_draws = 1, replies = (\<lambda>n. Inl (NetworkError ''offline'')),
       sent = [], aistudio = None, alerts = [], location = ''/''\<rparr> = [\<lparr>project_id = ''u0'', name = ''photo'', createdAt = 1000, updatedAt = 1000,
        originalImage = ''img'', processedImage = None, blocks = []\<rparr>, \<lparr>project_id = ''a1'', name = ''older'', createdAt = 500, updatedAt = 1500,
        originalImage = ''img2'', processedImage = None, blocks = []\<rparr>]"
proof -
  let ?w = "\<lparr>store = [\<lparr>project_id = ''a1'', name = ''older'', createdAt = 500, updatedAt = 1500,
        originalImage = ''img2'', processedImage = None, blocks = []\<rparr>, \<lparr>project_id = ''u0'', name = ''photo'', createdAt = 1000, updatedAt = 1000,
        originalImage = ''img'', processedImage = None, blocks = []\<rparr>], clock = (\<lambda>n. 2000 + int n), clock_reads = 0,
       uuids = (\<lambda>n. ''u1''), uuid_draws = 1, replies = (\<lambda>n. Inl (NetworkError ''offline'')),
       sent = [], aistudio = None, alerts = [], location = ''/''\<rparr>"
  note T = getAllProjects_by_date [of ?w]
  have "getAllProjects ?w = [\<lparr>project_id = ''u0'', name = ''photo'', createdAt = 1000, updatedAt = 1000,
        originalImage = ''img'', processedImage = None, blocks = []\<rparr>, \<lparr>project_id = ''a1'', name = ''older'', createdAt = 500, updatedAt = 1500,
        originalImage = ''img2'', processedImage = None, blocks = []\<rparr>]"
    by (simp add: getAllProjects_def db_getAllFromIndex_by_date_def)
  with T show ?thesis by simp
qed

text \<open>
  C7. \<open>updateProject\<close> fails, with the error \<open>Project {id} not found\<close>, exactly when no
  project with the id is stored, and then the world, the object store included, is
  unchanged. Otherwise it succeeds and stores, under its id, the existing record overlaid
  with the fields that the update names and with \<open>updatedAt\<close> set to a fresh reading of
  the clock; every field that the update does not name, \<open>updatedAt\<close> apart, keeps its
  value, and the records under other keys are unchanged.
\<close>

theorem updateProject_overlay:
  "(getProject k w = None \<longrightarrow>
      updateProject k u w = (Inl (Error (''Project '' @ k @ '' not found'')), w))
   \<and> (\<forall>p. getProject k w = Some p \<longrightarrow>
        (\<exists>w' p'. updateProject k u w = (Inr (), w')
           \<and> getProject (project_id p') w' = Some p'
           \<and> (\<forall>j. j \<noteq> project_id p' \<longrightarrow> getProject j w' = getProject j w)
           \<and> updatedAt p' = clock w (clock_reads w)
           \<and> project_id p' = (case upd_id u of None \<Rightarrow> project_id p | Some v \<Rightarrow> v)
           \<and> name p' = (case upd_name u of None \<Rightarrow> name p | Some v \<Rightarrow> v)
           \<and> createdAt p' = (case upd_createdAt u of None \<Rightarrow> createdAt p | Some v \<Rightarrow> v)
           \<and> originalImage p' = (case upd_originalImage u of None \<Rightarrow> originalImage p | Some v \<Rightarrow> v)
           \<and> processedImage p' = (case upd_processedImage u of None \<Rightarrow> processedImage p | Some v \<Rightarrow> v)
           \<and> blocks p' = (case upd_blocks u of None \<Rightarrow> blocks p | Some v \<Rightarrow> v)))
   \<and> (isl (fst (updateProject k u w)) \<longleftrightarrow> k \<notin> project_id ` set (store w))"
proof (cases "db_get k (store w)")
  case None
  then show ?thesis
    by (simp add: updateProject_def getProject_def db_get_None_iff [symmetric])
next
  case (Some p)
  let ?t = "clock w (clock_reads w)"
  let ?p' = "overlay p u ?t"
  let ?w' = "w\<lparr>clock_reads := Suc (clock_reads w), store := db_put ?p' (store w)\<rparr>"
  have run: "updateProject k u w = (Inr (), ?w')"
    by (simp add: updateProject_def Some Date_now_def Let_def)
  have got: "getProject (project_id ?p') ?w' = Some ?p'"
    by (simp add: getProject_def db_get_put_same)
  have other: "getProject j ?w' = getProject j w" if "j \<noteq> project_id ?p'" for j
    using that by (simp add: getProject_def db_get_put_other)
  have fields: "updatedAt ?p' = ?t
           \<and> project_id ?p' = (case upd_id u of None \<Rightarrow> project_id p | Some v \<Rightarrow> v)
           \<and> name ?p' = (case upd_name u of None \<Rightarrow> name p | Some v \<Rightarrow> v)
           \<and> createdAt ?p' = (case upd_createdAt u of None \<Rightarrow> createdAt p | Some v \<Rightarrow> v)
           \<and> originalImage ?p' = (case upd_originalImage u of None \<Rightarrow> originalImage p | Some v \<Rightarrow> v)
           \<and> processedImage ?p' = (case upd_processedImage u of None \<Rightarrow> processedImage p | Some v \<Rightarrow> v)
           \<and> blocks ?p' = (case upd_blocks u of None \<Rightarrow> blocks p | Some v \<Rightarrow> v)"
    by (simp add: overlay_def split: option.split)
  have stored: "k \<in> project_id ` set (store w)"
    using Some db_get_None_iff [of k "store w"] by simp
  have "\<exists>w' p'. updateProject k u w = (Inr (), w')
           \<and> getProject (project_id p') w' = Some p'
           \<and> (\<forall>j. j \<noteq> project_id p' \<longrightarrow> getProject j w' = getProject j w)
           \<and> updatedAt p' = clock w (clock_reads w)
           \<and> project_id p' = (case upd_id u of None \<Rightarrow> project_id p | Some v \<Rightarrow> v)
           \<and> name p' = (case upd_name u of None \<Rightarrow> name p | Some v \<Rightarrow> v)
           \<and> createdAt p' = (case upd_createdAt u of None \<Rightarrow> createdAt p | Some v \<Rightarrow> v)
           \<and> originalImage p' = (case upd_originalImage u of None \<Rightarrow> originalImage p | Some v \<Rightarrow> v)
           \<and> processedImage p' = (case upd_processedImage u of None \<Rightarrow> processedImage p | Some v \<Rightarrow> v)
           \<and> blocks p' = (case upd_blocks u of None \<Rightarrow> blocks p | Some v \<Rightarrow> v)"
    using run got other fields by blast
  with Some run stored show ?thesis
    by (simp add: getProject_def)
qed

theorem updateProject_overlay_witness:
  "getProject ''u0'' \<lparr>store = [\<lparr>project_id = ''u0'', name = ''photo'', createdAt = 1000, updatedAt = 1000,
        originalImage = ''img'', processedImage = None, blocks = []\<rparr>], clock = (\<lambda>n. 2000 + int n), clock_reads = 0,
       uuids = (\<lambda>n. ''u1''), uuid_draws = 1, replies = (\<lambda>n. Inl (NetworkError ''offline'')),
       sent = [], aistudio = None, alerts = [], location = ''/''\<rparr> = Some \<lparr>project_id = ''u0'', name = ''photo'', createdAt = 1000, updatedAt = 1000,
        originalImage = ''img'', processedImage = None, blocks = []\<rparr>
   \<and> fst (updateProject ''u0'' \<lparr>upd_id = None, upd_name = Some ''renamed'', upd_createdAt = None, upd_updatedAt = None,
       upd_originalImage = None, upd_processedImage = None, upd_blocks = None\<rparr> \<lparr>store = [\<lparr>project_id = ''u0'', name = ''photo'', createdAt = 1000, updatedAt = 1000,
        originalImage = ''img'', processedImage = None, blocks = []\<rparr>], clock = (\<lambda>n. 2000 + int n), clock_reads = 0,
       uuids = (\<lambda>n. ''u1''), uuid_draws = 1, replies = (\<lambda>n. Inl (NetworkError ''offline'')),
       sent = [], aistudio = None, alerts = [], location = ''/''\<rparr>) = Inr ()
   \<and> map_option name (getProject ''u0'' (snd (updateProject ''u0'' \<lparr>upd_id = None, upd_name = Some ''renamed'', upd_createdAt = None, upd_updatedAt = None,
       upd_originalImage = None, upd_processedImage = None, upd_blocks = None\<rparr> \<lparr>store = [\<lparr>project_id = ''u0'', name = ''photo'', createdAt = 1000, updatedAt = 1000,
        originalImage = ''img'', processedImage = None, blocks = []\<rparr>], clock = (\<lambda>n. 2000 + int n), clock_reads = 0,
       uuids = (\<lambda>n. ''u1''), uuid_draws = 1, replies = (\<lambda>n. Inl (NetworkError ''offline'')),
       sent = [], aistudio = None, alerts = [], location = ''/''\<rparr>))) = Some ''renamed''
   \<and> map_option updatedAt (getProject ''u0'' (snd (updateProject ''u0'' \<lparr>upd_id = None, upd_name = Some ''renamed'', upd_createdAt = None, upd_updatedAt = None,
       upd_originalImage = None, upd_processedImage = None, upd_blocks = None\<rparr> \<lparr>store = [\<lparr>project_id = ''u0'', name = ''photo'', createdAt = 1000, updatedAt = 1000,
        originalImage = ''img'', processedImage = None, blocks = []\<rparr>], clock = (\<lambda>n. 2000 + int n), clock_reads = 0,
       uuids = (\<lambda>n. ''u1''), uuid_draws = 1, replies = (\<lambda>n. Inl (NetworkError ''offline'')),
       sent = [], aistudio = None, alerts = [], location = ''/''\<rparr>))) = Some 2000
   \<and> map_option originalImage (getProject ''u0'' (snd (updateProject ''u0'' \<lparr>upd_id = None, upd_name = Some ''renamed'', upd_createdAt = None, upd_updatedAt = None,
       upd_originalImage = None, upd_processedImage = None, upd_blocks = None\<rparr> \<lparr>store = [\<lparr>project_id = ''u0'', name = ''photo'', createdAt = 1000, updatedAt = 1000,
        originalImage = ''img'', processedImage = None, blocks = []\<rparr>], clock = (\<lambda>n. 2000 + int n), clock_reads = 0,
       uuids = (\<lambda>n. ''u1''), uuid_draws = 1, replies = (\<lambda>n. Inl (NetworkError ''offline'')),
       sent = [], aistudio = None, alerts = [], location = ''/''\<rparr>))) = Some ''img''
   \<and> getProject ''zz'' \<lparr>store = [\<lparr>project_id = ''u0'', name = ''photo'', createdAt = 1000, updatedAt = 1000,
        originalImage = ''img'', processedImage = None, blocks = []\<rparr>], clock = (\<lambda>n. 2000 + int n), clock_reads = 0,
       uuids = (\<lambda>n. ''u1''), uuid_draws = 1, replies = (\<lambda>n. Inl (NetworkError ''offline'')),
       sent = [], aistudio = None, alerts = [], location = ''/''\<rparr> = None
   \<and> updateProject ''zz'' \<lparr>upd_id = None, upd_name = Some ''renamed'', upd_createdAt = None, upd_updatedAt = None,
       upd_originalImage = None, upd_processedImage = None, upd_blocks = None\<rparr> \<lparr>store = [\<lparr>project_id = ''u0'', name = ''photo'', createdAt = 1000, updatedAt = 1000,
        originalImage = ''img'', processedImage = None, blocks = []\<rparr>], clock = (\<lambda>n. 2000 + int n), clock_reads = 0,
       uuids = (\<lambda>n. ''u1''), uuid_draws = 1, replies = (\<lambda>n. Inl (NetworkError ''offline'')),
       sent = [], aistudio = None, alerts = [], location = ''/''\<rparr> = (Inl (Error ''Project zz not found''), \<lparr>store = [\<lparr>project_id = ''u0'', name = ''photo'', createdAt = 1000, updatedAt = 1000,
        originalImage = ''img'', processedImage = None, blocks = []\<rparr>], clock = (\<lambda>n. 2000 + int n), clock_reads = 0,
       uuids = (\<lambda>n. ''u1''), uuid_draws = 1, replies = (\<lambda>n. Inl (NetworkError ''offline'')),
       sent = [], aistudio = None, alerts = [], location = ''/''\<rparr>)"
proof -
  let ?w = "\<lparr>store = [\<lparr>project_id = ''u0'', name = ''photo'', createdAt = 1000, updatedAt = 1000,
        originalImage = ''img'', processedImage = None, blocks = []\<rparr>], clock = (\<lambda>n. 2000 + int n), clock_reads = 0,
       uuids = (\<lambda>n. ''u1''), uuid_draws = 1, replies = (\<lambda>n. Inl (NetworkError ''offline'')),
       sent = [], aistudio = None, alerts = [], location = ''/''\<rparr>"
  let ?u = "\<lparr>upd_id = None, upd_name = Some ''renamed'', upd_createdAt = None, upd_updatedAt = None,
       upd_originalImage = None, upd_processedImage = None, upd_blocks = None\<rparr>"
  have stored: "getProject ''u0'' ?w = Some \<lparr>project_id = ''u0'', name = ''photo'', createdAt = 1000, updatedAt = 1000,
        originalImage = ''img'', processedImage = None, blocks = []\<rparr>"
    by (simp add: getProject_def db_get_def)
  from updateProject_overlay [of "''u0''" ?w ?u] stored
  obtain w' p' where run: "updateProject ''u0'' ?u ?w = (Inr (), w')"
    and got: "getProject (project_id p') w' = Some p'"
    and upd: "updatedAt p' = clock ?w (clock_reads ?w)"
    and ident: "project_id p' = (case upd_id ?u of None \<Rightarrow> project_id \<lparr>project_id = ''u0'', name = ''photo'', createdAt = 1000, updatedAt = 1000,
        originalImage = ''img'', processedImage = None, blocks = []\<rparr> | Some v \<Rightarrow> v)"
    and nm: "name p' = (case upd_name ?u of None \<Rightarrow> name \<lparr>project_id = ''u0'', name = ''photo'', createdAt = 1000, updatedAt = 1000,
        originalImage = ''img'', processedImage = None, blocks = []\<rparr> | Some v \<Rightarrow> v)"
    and img: "originalImage p' = (case upd_originalImage ?u of None \<Rightarrow> originalImage \<lparr>project_id = ''u0'', name = ''photo'', createdAt = 1000, updatedAt = 1000,
        originalImage = ''img'', processedImage = None, blocks = []\<rparr> | Some v \<Rightarrow> v)"
    by blast
  from ident have k: "project_id p' = ''u0''" by simp
  from run have w': "snd (updateProject ''u0'' ?u ?w) = w'" and ok: "fst (updateProject ''u0'' ?u ?w) = Inr ()"
    by simp_all
  from got k have g: "getProject ''u0'' (snd (updateProject ''u0'' ?u ?w)) = Some p'"
    unfolding w' by simp
  have absent: "getProject ''zz'' ?w = None"
    by (simp add: getProject_def db_get_def)
  from updateProject_overlay [of "''zz''" ?w ?u] absent
  have err: "updateProject ''zz'' ?u ?w = (Inl (Error ''Project zz not found''), ?w)"
    by simp
  from stored ok g upd nm img absent err show ?thesis by simp
qed

subsection \<open>Identifiers of detected blocks\<close>

lemma digit_cases:
  "d < 10 \<Longrightarrow> d = 0 \<or> d = 1 \<or> d = 2 \<or> d = 3 \<or> d = 4 \<or> d = 5 \<or> d = 6 \<or> d = 7 \<or> d = 8 \<or> d = (9::nat)"
  by arith

lemma digit_char_code: "d < 10 \<Longrightarrow> (of_char (digit_char d) :: nat) = 48 + d"
  using digit_cases [of d] by (auto simp: digit_char_def)

lemma digit_char_not_dash: "d < 10 \<Longrightarrow> digit_char d \<noteq> CHR ''-''"
proof
  assume d: "d < 10" and eq: "digit_char d = CHR ''-''"
  from eq have "(of_char (digit_char d) :: nat) = of_char (CHR ''-'')" by simp
  with d show False by (simp add: digit_char_code)
qed

lemma digit_char_inj: "d < 10 \<Longrightarrow> e < 10 \<Longrightarrow> digit_char d = digit_char e \<Longrightarrow> d = e"
proof -
  assume d: "d < 10" and e: "e < 10" and eq: "digit_char d = digit_char e"
  from eq have "(of_char (digit_char d) :: nat) = of_char (digit_char e)" by simp
  with d e show ?thesis by (simp add: digit_char_code)
qed

lemma show_nat_no_dash: "CHR ''-'' \<notin> set (show_nat n)"
proof (induction n rule: show_nat.induct)
  case (1 n)
  show ?case
  proof (cases "n < 10")
    case True
    then show ?thesis
      using digit_char_not_dash [of n] by (subst show_nat.simps) auto
  next
    case False
    have "n mod 10 < 10" by simp
    with False 1 show ?thesis
      using digit_char_not_dash [of "n mod 10"] by (subst show_nat.simps) auto
  qed
qed

lemma show_nat_nonempty: "show_nat n \<noteq> []"
  by (subst show_nat.simps) simp

lemma show_nat_inj: "show_nat m = show_nat n \<Longrightarrow> m = n"
proof (induction m arbitrary: n rule: show_nat.induct)
  case (1 m)
  have sm: "show_nat m = (if m < 10 then [digit_char m] else show_nat (m div 10) @ [digit_char (m mod 10)])"
    by (rule show_nat.simps)
  have sn: "show_nat n = (if n < 10 then [digit_char n] else show_nat (n div 10) @ [digit_char (n mod 10)])"
    by (rule show_nat.simps)
  show ?case
  proof (cases "m < 10")
    case m: True
    show ?thesis
    proof (cases "n < 10")
      case True
      with m "1.prems" sm sn show ?thesis by (simp add: digit_char_inj)
    next
      case False
      with m "1.prems" sm sn show_nat_nonempty [of "n div 10"] show ?thesis by simp
    qed
  next
    case m: False
    show ?thesis
    proof (cases "n < 10")
      case True
      with m "1.prems" sm sn show_nat_nonempty [of "m div 10"] show ?thesis by simp
    next
      case False
      with m "1.prems" sm sn have q: "show_nat (m div 10) = show_nat (n div 10)"
        and r: "digit_char (m mod 10) = digit_char (n mod 10)" by simp_all
      from "1.IH" [OF m q] have dv: "m div 10 = n div 10" .
      from r have md: "m mod 10 = n mod 10" by (intro digit_char_inj) simp_all
      from dv md show ?thesis by (metis div_mult_mod_eq)
    qed
  qed
qed

lemma block_id_index:
  assumes "''block-'' @ show_nat i @ ''-'' @ s = ''block-'' @ show_nat j @ ''-'' @ t"
  shows "i = j"
proof -
  let ?P = "\<lambda>c. c \<noteq> CHR ''-''"
  from assms have eq: "show_nat i @ CHR ''-'' # s = show_nat j @ CHR ''-'' # t" by simp
  have "takeWhile ?P (show_nat k @ CHR ''-'' # u) = show_nat k" for k u
    using show_nat_no_dash [of k] by (subst takeWhile_append2) auto
  from this [of i s] this [of j t] eq have "show_nat i = show_nat j" by simp
  then show ?thesis by (rule show_nat_inj)
qed

lemma processedBlocks_world:
  "snd (processedBlocks vs idx w) = w\<lparr>clock_reads := clock_reads w + length vs\<rparr>"
  by (induction vs arbitrary: idx w) (simp_all add: Date_now_def Let_def case_prod_beta)

lemma processedBlocks_length: "length (fst (processedBlocks vs idx w)) = length vs"
  by (induction vs arbitrary: idx w) (simp_all add: Date_now_def Let_def case_prod_beta)

lemma processedBlocks_nth:
  "i < length vs \<Longrightarrow>
   fst (processedBlocks vs idx w) ! i =
     \<lparr>originalText = originalText (vs ! i), box_2d = box_2d (vs ! i),
      textColor = textColor (vs ! i), backgroundColor = backgroundColor (vs ! i),
      fontFamily = fontFamily (vs ! i), fontWeight = fontWeight (vs ! i),
      block_id = ''block-'' @ show_nat (idx + i) @ ''-'' @ show_int (clock w (clock_reads w + i)),
      currentText = originalText (vs ! i)\<rparr>"
proof (induction vs arbitrary: idx w i)
  case Nil
  then show ?case by simp
next
  case (Cons v vs)
  show ?case
  proof (cases i)
    case 0
    then show ?thesis by (simp add: Date_now_def Let_def case_prod_beta)
  next
    case (Suc j)
    with Cons.prems have j: "j < length vs" by simp
    from Cons.IH [OF j, of "Suc idx" "w\<lparr>clock_reads := Suc (clock_reads w)\<rparr>"] Suc
    show ?thesis by (simp add: Date_now_def Let_def case_prod_beta)
  qed
qed

lemma processedBlocks_distinct: "distinct (map block_id (fst (processedBlocks vs idx w)))"
proof -
  let ?bs = "fst (processedBlocks vs idx w)"
  have "map block_id ?bs ! i \<noteq> map block_id ?bs ! j"
    if i: "i < length vs" and j: "j < length vs" and ne: "i \<noteq> j" for i j
  proof
    assume "map block_id ?bs ! i = map block_id ?bs ! j"
    with i j have "''block-'' @ show_nat (idx + i) @ ''-'' @ show_int (clock w (clock_reads w + i))
        = ''block-'' @ show_nat (idx + j) @ ''-'' @ show_int (clock w (clock_reads w + j))"
      by (simp add: processedBlocks_length processedBlocks_nth)
    then have "idx + i = idx + j" by (rule block_id_index)
    with ne show False by simp
  qed
  then show ?thesis
    by (simp add: distinct_conv_nth processedBlocks_length)
qed

subsection \<open>The AI calls\<close>

lemma analyzeImageText_rethrows:
  "analyzeImageText JSON_parse img w = analyzeImageText_try JSON_parse img w"
  by (simp add: analyzeImageText_def split: prod.split sum.split)

lemma analyzeImageText_try_sent:
  "sent (snd (analyzeImageText_try JSON_parse img w)) = sent w @ [analyze_request img]"
  by (simp add: analyzeImageText_try_def generateContent_def Let_def case_prod_beta
      processedBlocks_world split: sum.split option.split)

lemma analyzeImageText_try_rejected:
  "replies w (length (sent w)) = Inl e \<Longrightarrow> fst (analyzeImageText_try JSON_parse img w) = Inl e"
  by (simp add: analyzeImageText_try_def generateContent_def)

lemma analyzeImageText_try_no_text:
  "replies w (length (sent w)) = Inr r \<Longrightarrow> resp_text r = None \<or> resp_text r = Some [] \<Longrightarrow>
   fst (analyzeImageText_try JSON_parse img w) = Inl (Error ''No response from Gemini'')"
  by (auto simp: analyzeImageText_try_def generateContent_def)

lemma analyzeImageText_try_parsed:
  "replies w (length (sent w)) = Inr r \<Longrightarrow> resp_text r = Some t \<Longrightarrow> t \<noteq> [] \<Longrightarrow>
   JSON_parse t = Inr d \<Longrightarrow>
   fst (analyzeImageText_try JSON_parse img w) =
     Inr \<lparr>textBlocks = fst (processedBlocks (case data_textBlocks d of None \<Rightarrow> [] | Some vs \<Rightarrow> vs) 0
                               (w\<lparr>sent := sent w @ [analyze_request img]\<rparr>))\<rparr>"
  by (simp add: analyzeImageText_try_def generateContent_def case_prod_beta)

lemma removeTextFromImage_try_sent:
  "sent (snd (removeTextFromImage_try img w)) =
     (case select_api_key w of Inl e \<Rightarrow> sent w | Inr u \<Rightarrow> sent w @ [clean_request img])"
  by (simp add: removeTextFromImage_try_def generateContent_def split: sum.split)

lemma removeTextFromImage_catches:
  "removeTextFromImage img w =
     (case fst (removeTextFromImage_try img w) of Inl e \<Rightarrow> None | Inr r \<Rightarrow> r,
      snd (removeTextFromImage_try img w))"
  by (simp add: removeTextFromImage_def split: prod.split sum.split)

lemma removeTextFromImage_try_rejected:
  "replies w (length (sent w)) = Inl e \<Longrightarrow> isl (fst (removeTextFromImage_try img w))"
  by (simp add: removeTextFromImage_try_def generateContent_def split: sum.split)

text \<open>
  C3. \<open>analyzeImageText\<close> sends exactly one request, whatever its outcome, and
  \<open>removeTextFromImage\<close> at most one (exactly one once the key selection has passed):
  neither retries. When the request fails, \<open>analyzeImageText\<close> fails with the same
  error, and when the response carries no text or an empty text it fails with
  \<open>No response from Gemini\<close>. When the request of \<open>removeTextFromImage\<close> fails, or anything
  else in its \<open>try\<close> block throws, it returns null.
\<close>

theorem ai_calls_single_request:
  "sent (snd (analyzeImageText JSON_parse img w)) = sent w @ [analyze_request img]
   \<and> (\<forall>e. replies w (length (sent w)) = Inl e \<longrightarrow>
          fst (analyzeImageText JSON_parse img w) = Inl e)
   \<and> (\<forall>r. replies w (length (sent w)) = Inr r \<and> (resp_text r = None \<or> resp_text r = Some []) \<longrightarrow>
          fst (analyzeImageText JSON_parse img w) = Inl (Error ''No response from Gemini''))
   \<and> (sent (snd (removeTextFromImage img w)) = sent w
        \<or> sent (snd (removeTextFromImage img w)) = sent w @ [clean_request img])
   \<and> (select_api_key w = Inr () \<longrightarrow>
          sent (snd (removeTextFromImage img w)) = sent w @ [clean_request img])
   \<and> (\<forall>e. replies w (length (sent w)) = Inl e \<longrightarrow> fst (removeTextFromImage img w) = None)
   \<and> (\<forall>e w'. removeTextFromImage_try img w = (Inl e, w') \<longrightarrow>
          removeTextFromImage img w = (None, w'))"
proof -
  have a1: "sent (snd (analyzeImageText JSON_parse img w)) = sent w @ [analyze_request img]"
    by (simp add: analyzeImageText_rethrows analyzeImageText_try_sent)
  have a2: "fst (analyzeImageText JSON_parse img w) = Inl e"
    if "replies w (length (sent w)) = Inl e" for e
    using that by (simp add: analyzeImageText_rethrows analyzeImageText_try_rejected)
  have a3: "fst (analyzeImageText JSON_parse img w) = Inl (Error ''No response from Gemini'')"
    if "replies w (length (sent w)) = Inr r" "resp_text r = None \<or> resp_text r = Some []" for r
    using that by (simp only: analyzeImageText_rethrows analyzeImageText_try_no_text)
  have r1: "sent (snd (removeTextFromImage img w)) = sent w
        \<or> sent (snd (removeTextFromImage img w)) = sent w @ [clean_request img]"
    by (simp add: removeTextFromImage_catches removeTextFromImage_try_sent split: sum.split)
  have r2: "sent (snd (removeTextFromImage img w)) = sent w @ [clean_request img]"
    if "select_api_key w = Inr ()"
    using that by (simp add: removeTextFromImage_catches removeTextFromImage_try_sent)
  have r3: "fst (removeTextFromImage img w) = None"
    if "replies w (length (sent w)) = Inl e" for e
    using removeTextFromImage_try_rejected [OF that, of img]
    by (cases "fst (removeTextFromImage_try img w)") (simp_all add: removeTextFromImage_catches)
  have r4: "removeTextFromImage img w = (None, w')"
    if "removeTextFromImage_try img w = (Inl e, w')" for e w'
    using that by (simp add: removeTextFromImage_def)
  from a1 a2 a3 r1 r2 r3 r4 show ?thesis by blast
qed

theorem ai_calls_single_request_witness:
  "replies \<lparr>store = [], clock = (\<lambda>n. 1000), clock_reads = 0, uuids = (\<lambda>n. ''u0''),
       uuid_draws = 0, replies = (\<lambda>n. Inl (NetworkError ''offline'')), sent = [],
       aistudio = None, alerts = [], location = ''/''\<rparr> (length (sent \<lparr>store = [], clock = (\<lambda>n. 1000), clock_reads = 0, uuids = (\<lambda>n. ''u0''),
       uuid_draws = 0, replies = (\<lambda>n. Inl (NetworkError ''offline'')), sent = [],
       aistudio = None, alerts = [], location = ''/''\<rparr>)) = Inl (NetworkError ''offline'')
   \<and> fst (analyzeImageText (\<lambda>s. Inr \<lparr>data_textBlocks = Some [\<lparr>originalText = ''Hello'', box_2d = (100, 200, 300, 400), textColor = ''#000000'',
        backgroundColor = ''#FFFFFF'', fontFamily = ''serif'', fontWeight = ''bold''\<rparr>, \<lparr>originalText = ''World'', box_2d = (500, 200, 700, 400), textColor = ''#111111'',
        backgroundColor = ''#EEEEEE'', fontFamily = ''monospace'', fontWeight = ''normal''\<rparr>]\<rparr>) ''x'' \<lparr>store = [], clock = (\<lambda>n. 1000), clock_reads = 0, uuids = (\<lambda>n. ''u0''),
       uuid_draws = 0, replies = (\<lambda>n. Inl (NetworkError ''offline'')), sent = [],
       aistudio = None, alerts = [], location = ''/''\<rparr>) = Inl (NetworkError ''offline'')
   \<and> length (sent (snd (analyzeImageText (\<lambda>s. Inr \<lparr>data_textBlocks = Some [\<lparr>originalText = ''Hello'', box_2d = (100, 200, 300, 400), textColor = ''#000000'',
        backgroundColor = ''#FFFFFF'', fontFamily = ''serif'', fontWeight = ''bold''\<rparr>, \<lparr>originalText = ''World'', box_2d = (500, 200, 700, 400), textColor = ''#111111'',
        backgroundColor = ''#EEEEEE'', fontFamily = ''monospace'', fontWeight = ''normal''\<rparr>]\<rparr>) ''x'' \<lparr>store = [], clock = (\<lambda>n. 1000), clock_reads = 0, uuids = (\<lambda>n. ''u0''),
       uuid_draws = 0, replies = (\<lambda>n. Inl (NetworkError ''offline'')), sent = [],
       aistudio = None, alerts = [], location = ''/''\<rparr>))) = 1
   \<and> select_api_key \<lparr>store = [], clock = (\<lambda>n. 1000), clock_reads = 0, uuids = (\<lambda>n. ''u0''),
       uuid_draws = 0, replies = (\<lambda>n. Inl (NetworkError ''offline'')), sent = [],
       aistudio = None, alerts = [], location = ''/''\<rparr> = Inr ()
   \<and> fst (removeTextFromImage ''x'' \<lparr>store = [], clock = (\<lambda>n. 1000), clock_reads = 0, uuids = (\<lambda>n. ''u0''),
       uuid_draws = 0, replies = (\<lambda>n. Inl (NetworkError ''offline'')), sent = [],
       aistudio = None, alerts = [], location = ''/''\<rparr>) = None
   \<and> length (sent (snd (removeTextFromImage ''x'' \<lparr>store = [], clock = (\<lambda>n. 1000), clock_reads = 0, uuids = (\<lambda>n. ''u0''),
       uuid_draws = 0, replies = (\<lambda>n. Inl (NetworkError ''offline'')), sent = [],
       aistudio = None, alerts = [], location = ''/''\<rparr>))) = 1
   \<and> replies \<lparr>store = [], clock = (\<lambda>n. 1000), clock_reads = 0, uuids = (\<lambda>n. ''u0''),
       uuid_draws = 0, replies = (\<lambda>n. Inr \<lparr>resp_text = None, resp_candidates = None\<rparr>), sent = [],
       aistudio = None, alerts = [], location = ''/''\<rparr> (length (sent \<lparr>store = [], clock = (\<lambda>n. 1000), clock_reads = 0, uuids = (\<lambda>n. ''u0''),
       uuid_draws = 0, replies = (\<lambda>n. Inr \<lparr>resp_text = None, resp_candidates = None\<rparr>), sent = [],
       aistudio = None, alerts = [], location = ''/''\<rparr>)) = Inr \<lparr>resp_text = None, resp_candidates = None\<rparr>
   \<and> fst (analyzeImageText (\<lambda>s. Inr \<lparr>data_textBlocks = Some [\<lparr>originalText = ''Hello'', box_2d = (100, 200, 300, 400), textColor = ''#000000'',
        backgroundColor = ''#FFFFFF'', fontFamily = ''serif'', fontWeight = ''bold''\<rparr>, \<lparr>originalText = ''World'', box_2d = (500, 200, 700, 400), textColor = ''#111111'',
        backgroundColor = ''#EEEEEE'', fontFamily = ''monospace'', fontWeight = ''normal''\<rparr>]\<rparr>) ''x'' \<lparr>store = [], clock = (\<lambda>n. 1000), clock_reads = 0, uuids = (\<lambda>n. ''u0''),
       uuid_draws = 0, replies = (\<lambda>n. Inr \<lparr>resp_text = None, resp_candidates = None\<rparr>), sent = [],
       aistudio = None, alerts = [], location = ''/''\<rparr>) = Inl (Error ''No response from Gemini'')"
proof -
  let ?w = "\<lparr>store = [], clock = (\<lambda>n. 1000), clock_reads = 0, uuids = (\<lambda>n. ''u0''),
       uuid_draws = 0, replies = (\<lambda>n. Inl (NetworkError ''offline'')), sent = [],
       aistudio = None, alerts = [], location = ''/''\<rparr>"
  let ?v = "\<lparr>store = [], clock = (\<lambda>n. 1000), clock_reads = 0, uuids = (\<lambda>n. ''u0''),
       uuid_draws = 0, replies = (\<lambda>n. Inr \<lparr>resp_text = None, resp_candidates = None\<rparr>), sent = [],
       aistudio = None, alerts = [], location = ''/''\<rparr>"
  let ?P = "(\<lambda>s. Inr \<lparr>data_textBlocks = Some [\<lparr>originalText = ''Hello'', box_2d = (100, 200, 300, 400), textColor = ''#000000'',
        backgroundColor = ''#FFFFFF'', fontFamily = ''serif'', fontWeight = ''bold''\<rparr>, \<lparr>originalText = ''World'', box_2d = (500, 200, 700, 400), textColor = ''#111111'',
        backgroundColor = ''#EEEEEE'', fontFamily = ''monospace'', fontWeight = ''normal''\<rparr>]\<rparr>)"
  note T = ai_calls_single_request [of ?P "''x''" ?w]
  note U = ai_calls_single_request [of ?P "''x''" ?v]
  have off: "replies ?w (length (sent ?w)) = Inl (NetworkError ''offline'')" by simp
  have key: "select_api_key ?w = Inr ()" by (simp add: select_api_key_def)
  have silent: "replies ?v (length (sent ?v)) = Inr \<lparr>resp_text = None, resp_candidates = None\<rparr>"
    by simp
  from T off have a: "fst (analyzeImageText ?P ''x'' ?w) = Inl (NetworkError ''offline'')"
    by blast
  from T have "sent (snd (analyzeImageText ?P ''x'' ?w)) = sent ?w @ [analyze_request ''x'']"
    by blast
  then have b: "length (sent (snd (analyzeImageText ?P ''x'' ?w))) = 1" by simp
  from T off have c: "fst (removeTextFromImage ''x'' ?w) = None" by blast
  from T key have "sent (snd (removeTextFromImage ''x'' ?w)) = sent ?w @ [clean_request ''x'']"
    by blast
  then have d: "length (sent (snd (removeTextFromImage ''x'' ?w))) = 1" by simp
  from U have "\<forall>r. replies ?v (length (sent ?v)) = Inr r \<and> (resp_text r = None \<or> resp_text r = Some []) \<longrightarrow>
          fst (analyzeImageText ?P ''x'' ?v) = Inl (Error ''No response from Gemini'')"
    by blast
  from this [rule_format, of "\<lparr>resp_text = None, resp_candidates = None\<rparr>"] silent
  have e: "fst (analyzeImageText ?P ''x'' ?v) = Inl (Error ''No response from Gemini'')"
    by simp
  from off a b key c d silent e show ?thesis by simp
qed

text \<open>
  C4. For every response with a non-empty text that parses, \<open>analyzeImageText\<close> returns
  a result. If the parsed data has no \<open>textBlocks\<close>, the result has no blocks. Otherwise
  the result has one block per vendor block, in order, with the vendor's bounding box,
  text color, background color, font family, font weight and original text, with
  \<open>currentText\<close> equal to \<open>originalText\<close>, and with the id \<open>block-{index}-{time}\<close>. The ids
  of the blocks of a result are pairwise distinct.
\<close>

theorem analyzeImageText_blocks:
  assumes reply: "replies w (length (sent w)) = Inr resp"
    and body: "resp_text resp = Some jsonText" and nonempty: "jsonText \<noteq> []"
    and parsed: "JSON_parse jsonText = Inr data"
  shows "\<exists>r. fst (analyzeImageText JSON_parse img w) = Inr r
     \<and> (data_textBlocks data = None \<longrightarrow> textBlocks r = [])
     \<and> (\<forall>vs. data_textBlocks data = Some vs \<longrightarrow>
          length (textBlocks r) = length vs
          \<and> (\<forall>i < length vs.
               box_2d (textBlocks r ! i) = box_2d (vs ! i)
               \<and> textColor (textBlocks r ! i) = textColor (vs ! i)
               \<and> backgroundColor (textBlocks r ! i) = backgroundColor (vs ! i)
               \<and> fontFamily (textBlocks r ! i) = fontFamily (vs ! i)
               \<and> fontWeight (textBlocks r ! i) = fontWeight (vs ! i)
               \<and> originalText (textBlocks r ! i) = originalText (vs ! i)
               \<and> currentText (textBlocks r ! i) = originalText (textBlocks r ! i)
               \<and> block_id (textBlocks r ! i)
                   = ''block-'' @ show_nat i @ ''-'' @ show_int (clock w (clock_reads w + i))))
     \<and> distinct (map block_id (textBlocks r))"
proof -
  let ?w1 = "w\<lparr>sent := sent w @ [analyze_request img]\<rparr>"
  let ?vs = "case data_textBlocks data of None \<Rightarrow> [] | Some vs \<Rightarrow> vs"
  let ?r = "\<lparr>textBlocks = fst (processedBlocks ?vs 0 ?w1)\<rparr>"
  have run: "fst (analyzeImageText JSON_parse img w) = Inr ?r"
    unfolding analyzeImageText_rethrows
    using reply body nonempty parsed by (simp add: analyzeImageText_try_parsed)
  have absent: "textBlocks ?r = []" if "data_textBlocks data = None"
    using that by simp
  have len: "length (textBlocks ?r) = length vs" if "data_textBlocks data = Some vs" for vs
    using that by (simp add: processedBlocks_length)
  have fields: "box_2d (textBlocks ?r ! i) = box_2d (vs ! i)
               \<and> textColor (textBlocks ?r ! i) = textColor (vs ! i)
               \<and> backgroundColor (textBlocks ?r ! i) = backgroundColor (vs ! i)
               \<and> fontFamily (textBlocks ?r ! i) = fontFamily (vs ! i)
               \<and> fontWeight (textBlocks ?r ! i) = fontWeight (vs ! i)
               \<and> originalText (textBlocks ?r ! i) = originalText (vs ! i)
               \<and> currentText (textBlocks ?r ! i) = originalText (textBlocks ?r ! i)
               \<and> block_id (textBlocks ?r ! i)
                   = ''block-'' @ show_nat i @ ''-'' @ show_int (clock w (clock_reads w + i))"
    if "data_textBlocks data = Some vs" "i < length vs" for vs i
    using that by (simp add: processedBlocks_nth)
  have dist: "distinct (map block_id (textBlocks ?r))"
    by (simp add: processedBlocks_distinct)
  show ?thesis
  proof (rule exI [of _ ?r], intro conjI)
    show "fst (analyzeImageText JSON_parse img w) = Inr ?r" by (rule run)
    show "data_textBlocks data = None \<longrightarrow> textBlocks ?r = []"
      using absent by (rule impI)
    show "distinct (map block_id (textBlocks ?r))" by (rule dist)
    show "\<forall>vs. data_textBlocks data = Some vs \<longrightarrow>
          length (textBlocks ?r) = length vs
          \<and> (\<forall>i < length vs.
               box_2d (textBlocks ?r ! i) = box_2d (vs ! i)
               \<and> textColor (textBlocks ?r ! i) = textColor (vs ! i)
               \<and> backgroundColor (textBlocks ?r ! i) = backgroundColor (vs ! i)
               \<and> fontFamily (textBlocks ?r ! i) = fontFamily (vs ! i)
               \<and> fontWeight (textBlocks ?r ! i) = fontWeight (vs ! i)
               \<and> originalText (textBlocks ?r ! i) = originalText (vs ! i)
               \<and> currentText (textBlocks ?r ! i) = originalText (textBlocks ?r ! i)
               \<and> block_id (textBlocks ?r ! i)
                   = ''block-'' @ show_nat i @ ''-'' @ show_int (clock w (clock_reads w + i)))"
    proof (intro allI impI conjI)
      fix vs
      assume some: "data_textBlocks data = Some vs"
      show "length (textBlocks ?r) = length vs" by (rule len [OF some])
    next
      fix vs i
      assume some: "data_textBlocks data = Some vs" and i: "i < length vs"
      note F = fields [OF some i]
      from F show "box_2d (textBlocks ?r ! i) = box_2d (vs ! i)" by (elim conjE)
      from F show "textColor (textBlocks ?r ! i) = textColor (vs ! i)" by (elim conjE)
      from F show "backgroundColor (textBlocks ?r ! i) = backgroundColor (vs ! i)" by (elim conjE)
      from F show "fontFamily (textBlocks ?r ! i) = fontFamily (vs ! i)" by (elim conjE)
      from F show "fontWeight (textBlocks ?r ! i) = fontWeight (vs ! i)" by (elim conjE)
      from F show "originalText (textBlocks ?r ! i) = originalText (vs ! i)" by (elim conjE)
      from F show "currentText (textBlocks ?r ! i) = originalText (textBlocks ?r ! i)" by (elim conjE)
      from F show "block_id (textBlocks ?r ! i)
                   = ''block-'' @ show_nat i @ ''-'' @ show_int (clock w (clock_reads w + i))"
        by (elim conjE)
    qed
  qed
qed

theorem analyzeImageText_blocks_witness:
  "replies \<lparr>store = [], clock = (\<lambda>n. 1000), clock_reads = 0, uuids = (\<lambda>n. ''u0''),
       uuid_draws = 0, replies = (\<lambda>n. Inr \<lparr>resp_text = Some ''{}'', resp_candidates = None\<rparr>), sent = [],
       aistudio = None, alerts = [], location = ''/''\<rparr> (length (sent \<lparr>store = [], clock = (\<lambda>n. 1000), clock_reads = 0, uuids = (\<lambda>n. ''u0''),
       uuid_draws = 0, replies = (\<lambda>n. Inr \<lparr>resp_text = Some ''{}'', resp_candidates = None\<rparr>), sent = [],
       aistudio = None, alerts = [], location = ''/''\<rparr>)) = Inr \<lparr>resp_text = Some ''{}'', resp_candidates = None\<rparr>
   \<and> resp_text \<lparr>resp_text = Some ''{}'', resp_candidates = None\<rparr> = Some ''{}'' \<and> ''{}'' \<noteq> []
   \<and> (\<lambda>s. Inr \<lparr>data_textBlocks = Some [\<lparr>originalText = ''Hello'', box_2d = (100, 200, 300, 400), textColor = ''#000000'',
        backgroundColor = ''#FFFFFF'', fontFamily = ''serif'', fontWeight = ''bold''\<rparr>, \<lparr>originalText = ''World'', box_2d = (500, 200, 700, 400), textColor = ''#111111'',
        backgroundColor = ''#EEEEEE'', fontFamily = ''monospace'', fontWeight = ''normal''\<rparr>]\<rparr>) ''{}'' = Inr \<lparr>data_textBlocks = Some [\<lparr>originalText = ''Hello'', box_2d = (100, 200, 300, 400), textColor = ''#000000'',
        backgroundColor = ''#FFFFFF'', fontFamily = ''serif'', fontWeight = ''bold''\<rparr>, \<lparr>originalText = ''World'', box_2d = (500, 200, 700, 400), textColor = ''#111111'',
        backgroundColor = ''#EEEEEE'', fontFamily = ''monospace'', fontWeight = ''normal''\<rparr>]\<rparr>
   \<and> map block_id (textBlocks (projr (fst (analyzeImageText (\<lambda>s. Inr \<lparr>data_textBlocks = Some [\<lparr>originalText = ''Hello'', box_2d = (100, 200, 300, 400), textColor = ''#000000'',
        backgroundColor = ''#FFFFFF'', fontFamily = ''serif'', fontWeight = ''bold''\<rparr>, \<lparr>originalText = ''World'', box_2d = (500, 200, 700, 400), textColor = ''#111111'',
        backgroundColor = ''#EEEEEE'', fontFamily = ''monospace'', fontWeight = ''normal''\<rparr>]\<rparr>) ''x'' \<lparr>store = [], clock = (\<lambda>n. 1000), clock_reads = 0, uuids = (\<lambda>n. ''u0''),
       uuid_draws = 0, replies = (\<lambda>n. Inr \<lparr>resp_text = Some ''{}'', resp_candidates = None\<rparr>), sent = [],
       aistudio = None, alerts = [], location = ''/''\<rparr>))))
       = [''block-0-1000'', ''block-1-1000'']
   \<and> map currentText (textBlocks (projr (fst (analyzeImageText (\<lambda>s. Inr \<lparr>data_textBlocks = Some [\<lparr>originalText = ''Hello'', box_2d = (100, 200, 300, 400), textColor = ''#000000'',
        backgroundColor = ''#FFFFFF'', fontFamily = ''serif'', fontWeight = ''bold''\<rparr>, \<lparr>originalText = ''World'', box_2d = (500, 200, 700, 400), textColor = ''#111111'',
        backgroundColor = ''#EEEEEE'', fontFamily = ''monospace'', fontWeight = ''normal''\<rparr>]\<rparr>) ''x'' \<lparr>store = [], clock = (\<lambda>n. 1000), clock_reads = 0, uuids = (\<lambda>n. ''u0''),
       uuid_draws = 0, replies = (\<lambda>n. Inr \<lparr>resp_text = Some ''{}'', resp_candidates = None\<rparr>), sent = [],
       aistudio = None, alerts = [], location = ''/''\<rparr>))))
       = [''Hello'', ''World'']"
proof -
  let ?w = "\<lparr>store = [], clock = (\<lambda>n. 1000), clock_reads = 0, uuids = (\<lambda>n. ''u0''),
       uuid_draws = 0, replies = (\<lambda>n. Inr \<lparr>resp_text = Some ''{}'', resp_candidates = None\<rparr>), sent = [],
       aistudio = None, alerts = [], location = ''/''\<rparr>"
  let ?P = "(\<lambda>s. Inr \<lparr>data_textBlocks = Some [\<lparr>originalText = ''Hello'', box_2d = (100, 200, 300, 400), textColor = ''#000000'',
        backgroundColor = ''#FFFFFF'', fontFamily = ''serif'', fontWeight = ''bold''\<rparr>, \<lparr>originalText = ''World'', box_2d = (500, 200, 700, 400), textColor = ''#111111'',
        backgroundColor = ''#EEEEEE'', fontFamily = ''monospace'', fontWeight = ''normal''\<rparr>]\<rparr>)"
  let ?resp = "\<lparr>resp_text = Some ''{}'', resp_candidates = None\<rparr>"
  let ?d = "\<lparr>data_textBlocks = Some [\<lparr>originalText = ''Hello'', box_2d = (100, 200, 300, 400), textColor = ''#000000'',
        backgroundColor = ''#FFFFFF'', fontFamily = ''serif'', fontWeight = ''bold''\<rparr>, \<lparr>originalText = ''World'', box_2d = (500, 200, 700, 400), textColor = ''#111111'',
        backgroundColor = ''#EEEEEE'', fontFamily = ''monospace'', fontWeight = ''normal''\<rparr>]\<rparr>"
  have h1: "replies ?w (length (sent ?w)) = Inr ?resp" by simp
  have h2: "resp_text ?resp = Some ''{}''" by simp
  have h3: "''{}'' \<noteq> []" by simp
  have h4: "?P ''{}'' = Inr ?d" by simp
  from analyzeImageText_blocks [of ?w ?resp "''{}''" ?P ?d "''x''", OF h1 h2 h3 h4]
  obtain r where run: "fst (analyzeImageText ?P ''x'' ?w) = Inr r"
    and blocks: "\<forall>vs. data_textBlocks ?d = Some vs \<longrightarrow>
          length (textBlocks r) = length vs
          \<and> (\<forall>i < length vs.
               box_2d (textBlocks r ! i) = box_2d (vs ! i)
               \<and> textColor (textBlocks r ! i) = textColor (vs ! i)
               \<and> backgroundColor (textBlocks r ! i) = backgroundColor (vs ! i)
               \<and> fontFamily (textBlocks r ! i) = fontFamily (vs ! i)
               \<and> fontWeight (textBlocks r ! i) = fontWeight (vs ! i)
               \<and> originalText (textBlocks r ! i) = originalText (vs ! i)
               \<and> currentText (textBlocks r ! i) = originalText (textBlocks r ! i)
               \<and> block_id (textBlocks r ! i)
                   = ''block-'' @ show_nat i @ ''-'' @ show_int (clock ?w (clock_reads ?w + i)))"
    by blast
  from blocks [rule_format, of "[\<lparr>originalText = ''Hello'', box_2d = (100, 200, 300, 400), textColor = ''#000000'',
        backgroundColor = ''#FFFFFF'', fontFamily = ''serif'', fontWeight = ''bold''\<rparr>, \<lparr>originalText = ''World'', box_2d = (500, 200, 700, 400), textColor = ''#111111'',
        backgroundColor = ''#EEEEEE'', fontFamily = ''monospace'', fontWeight = ''normal''\<rparr>]"]
  have len: "length (textBlocks r) = 2"
    and each: "\<forall>i < length [\<lparr>originalText = ''Hello'', box_2d = (100, 200, 300, 400), textColor = ''#000000'',
        backgroundColor = ''#FFFFFF'', fontFamily = ''serif'', fontWeight = ''bold''\<rparr>, \<lparr>originalText = ''World'', box_2d = (500, 200, 700, 400), textColor = ''#111111'',
        backgroundColor = ''#EEEEEE'', fontFamily = ''monospace'', fontWeight = ''normal''\<rparr>].
               originalText (textBlocks r ! i) = originalText ([\<lparr>originalText = ''Hello'', box_2d = (100, 200, 300, 400), textColor = ''#000000'',
        backgroundColor = ''#FFFFFF'', fontFamily = ''serif'', fontWeight = ''bold''\<rparr>, \<lparr>originalText = ''World'', box_2d = (500, 200, 700, 400), textColor = ''#111111'',
        backgroundColor = ''#EEEEEE'', fontFamily = ''monospace'', fontWeight = ''normal''\<rparr>] ! i)
               \<and> currentText (textBlocks r ! i) = originalText (textBlocks r ! i)
               \<and> block_id (textBlocks r ! i)
                   = ''block-'' @ show_nat i @ ''-'' @ show_int (clock ?w (clock_reads ?w + i))"
    by simp_all
  from each [rule_format, of 0] each [rule_format, of 1]
  have ids: "block_id (textBlocks r ! 0) = ''block-0-1000''" "block_id (textBlocks r ! 1) = ''block-1-1000''"
    and cur: "currentText (textBlocks r ! 0) = ''Hello''" "currentText (textBlocks r ! 1) = ''World''"
    by (simp_all add: show_nat.simps show_int_def digit_char_def)
  from len obtain b0 b1 where two: "textBlocks r = [b0, b1]"
    by (cases "textBlocks r"; cases "tl (textBlocks r)") auto
  from two ids cur have "map block_id (textBlocks r) = [''block-0-1000'', ''block-1-1000'']"
    and "map currentText (textBlocks r) = [''Hello'', ''World'']" by simp_all
  with run h1 h2 h3 h4 show ?thesis by simp
qed

lemma first_inline_None_iff:
  "first_inline ps = None \<longleftrightarrow> (\<forall>p \<in> set ps. part_inlineData p = None)"
  by (induction ps) (auto split: option.split)

lemma first_inline_first:
  "\<forall>q \<in> set pre. part_inlineData q = None \<Longrightarrow> part_inlineData p = Some inl \<Longrightarrow>
   first_inline (pre @ p # post) = Some (''data:image/png;base64,'' @ inline_data inl)"
  by (induction pre) simp_all

lemma removeTextFromImage_responded:
  "select_api_key w = Inr () \<Longrightarrow> replies w (length (sent w)) = Inr resp \<Longrightarrow>
   fst (removeTextFromImage img w) = first_inline (response_parts resp)"
  by (simp add: removeTextFromImage_catches removeTextFromImage_try_def generateContent_def)

text \<open>
  C5. For every response (the key selection having passed and the request having
  succeeded), \<open>removeTextFromImage\<close> returns null exactly when no part of the first
  candidate carries inline data, which includes a response without candidates, a first
  candidate without content and a content without parts; otherwise it returns
  \<open>data:image/png;base64,\<close> followed by the data of the first part that carries inline
  data.
\<close>

theorem removeTextFromImage_first_inline:
  assumes key: "select_api_key w = Inr ()"
    and reply: "replies w (length (sent w)) = Inr resp"
  shows "(fst (removeTextFromImage img w) = None
          \<longleftrightarrow> (\<forall>p \<in> set (response_parts resp). part_inlineData p = None))
     \<and> (\<forall>pre p post inl.
           response_parts resp = pre @ p # post
           \<and> (\<forall>q \<in> set pre. part_inlineData q = None) \<and> part_inlineData p = Some inl \<longrightarrow>
           fst (removeTextFromImage img w) = Some (''data:image/png;base64,'' @ inline_data inl))
     \<and> (\<forall>c cs ct ps. resp_candidates resp = Some (c # cs) \<and> cand_content c = Some ct
           \<and> content_parts ct = Some ps \<longrightarrow> response_parts resp = ps)
     \<and> (resp_candidates resp = None \<or> resp_candidates resp = Some []
         \<or> (\<exists>c cs. resp_candidates resp = Some (c # cs)
               \<and> (cand_content c = None
                   \<or> (\<exists>ct. cand_content c = Some ct \<and> content_parts ct = None)))
         \<longrightarrow> response_parts resp = [] \<and> fst (removeTextFromImage img w) = None)"
proof -
  note R = removeTextFromImage_responded [OF key reply, of img]
  have n: "fst (removeTextFromImage img w) = None
          \<longleftrightarrow> (\<forall>p \<in> set (response_parts resp). part_inlineData p = None)"
    unfolding R by (rule first_inline_None_iff)
  have f: "fst (removeTextFromImage img w) = Some (''data:image/png;base64,'' @ inline_data inl)"
    if "response_parts resp = pre @ p # post" "\<forall>q \<in> set pre. part_inlineData q = None"
      "part_inlineData p = Some inl" for pre p post inl
    unfolding R using that by (simp add: first_inline_first)
  have p: "response_parts resp = ps"
    if "resp_candidates resp = Some (c # cs)" "cand_content c = Some ct" "content_parts ct = Some ps"
    for c cs ct ps
    using that by (simp add: response_parts_def)
  have e: "response_parts resp = [] \<and> fst (removeTextFromImage img w) = None"
    if "resp_candidates resp = None \<or> resp_candidates resp = Some []
         \<or> (\<exists>c cs. resp_candidates resp = Some (c # cs)
               \<and> (cand_content c = None
                   \<or> (\<exists>ct. cand_content c = Some ct \<and> content_parts ct = None)))"
  proof -
    from that have "response_parts resp = []"
      by (auto simp: response_parts_def)
    then show ?thesis unfolding R by simp
  qed
  from n f p e show ?thesis by blast
qed

theorem removeTextFromImage_first_inline_witness:
  "select_api_key \<lparr>store = [], clock = (\<lambda>n. 1000), clock_reads = 0, uuids = (\<lambda>n. ''u0''),
       uuid_draws = 0, replies = (\<lambda>n. Inr \<lparr>resp_text = None,
        resp_candidates = Some [\<lparr>cand_content = Some \<lparr>content_parts =
          Some [\<lparr>part_inlineData = None\<rparr>,
                \<lparr>part_inlineData = Some \<lparr>inline_data = ''QUJD''\<rparr>\<rparr>]\<rparr>\<rparr>]\<rparr>), sent = [],
       aistudio = None, alerts = [], location = ''/''\<rparr> = Inr ()
   \<and> replies \<lparr>store = [], clock = (\<lambda>n. 1000), clock_reads = 0, uuids = (\<lambda>n. ''u0''),
       uuid_draws = 0, replies = (\<lambda>n. Inr \<lparr>resp_text = None,
        resp_candidates = Some [\<lparr>cand_content = Some \<lparr>content_parts =
          Some [\<lparr>part_inlineData = None\<rparr>,
                \<lparr>part_inlineData = Some \<lparr>inline_data = ''QUJD''\<rparr>\<rparr>]\<rparr>\<rparr>]\<rparr>), sent = [],
       aistudio = None, alerts = [], location = ''/''\<rparr> (length (sent \<lparr>store = [], clock = (\<lambda>n. 1000), clock_reads = 0, uuids = (\<lambda>n. ''u0''),
       uuid_draws = 0, replies = (\<lambda>n. Inr \<lparr>resp_text = None,
        resp_candidates = Some [\<lparr>cand_content = Some \<lparr>content_parts =
          Some [\<lparr>part_inlineData = None\<rparr>,
                \<lparr>part_inlineData = Some \<lparr>inline_data = ''QUJD''\<rparr>\<rparr>]\<rparr>\<rparr>]\<rparr>), sent = [],
       aistudio = None, alerts = [], location = ''/''\<rparr>)) = Inr \<lparr>resp_text = None,
        resp_candidates = Some [\<lparr>cand_content = Some \<lparr>content_parts =
          Some [\<lparr>part_inlineData = None\<rparr>,
                \<lparr>part_inlineData = Some \<lparr>inline_data = ''QUJD''\<rparr>\<rparr>]\<rparr>\<rparr>]\<rparr>
   \<and> fst (removeTextFromImage ''x'' \<lparr>store = [], clock = (\<lambda>n. 1000), clock_reads = 0, uuids = (\<lambda>n. ''u0''),
       uuid_draws = 0, replies = (\<lambda>n. Inr \<lparr>resp_text = None,
        resp_candidates = Some [\<lparr>cand_content = Some \<lparr>content_parts =
          Some [\<lparr>part_inlineData = None\<rparr>,
                \<lparr>part_inlineData = Some \<lparr>inline_data = ''QUJD''\<rparr>\<rparr>]\<rparr>\<rparr>]\<rparr>), sent = [],
       aistudio = None, alerts = [], location = ''/''\<rparr>) = Some ''data:image/png;base64,QUJD''
   \<and> select_api_key \<lparr>store = [], clock = (\<lambda>n. 1000), clock_reads = 0, uuids = (\<lambda>n. ''u0''),
       uuid_draws = 0, replies = (\<lambda>n. Inr \<lparr>resp_text = None, resp_candidates = None\<rparr>), sent = [],
       aistudio = None, alerts = [], location = ''/''\<rparr> = Inr ()
   \<and> fst (removeTextFromImage ''x'' \<lparr>store = [], clock = (\<lambda>n. 1000), clock_reads = 0, uuids = (\<lambda>n. ''u0''),
       uuid_draws = 0, replies = (\<lambda>n. Inr \<lparr>resp_text = None, resp_candidates = None\<rparr>), sent = [],
       aistudio = None, alerts = [], location = ''/''\<rparr>) = None"
proof -
  let ?w = "\<lparr>store = [], clock = (\<lambda>n. 1000), clock_reads = 0, uuids = (\<lambda>n. ''u0''),
       uuid_draws = 0, replies = (\<lambda>n. Inr \<lparr>resp_text = None,
        resp_candidates = Some [\<lparr>cand_content = Some \<lparr>content_parts =
          Some [\<lparr>part_inlineData = None\<rparr>,
                \<lparr>part_inlineData = Some \<lparr>inline_data = ''QUJD''\<rparr>\<rparr>]\<rparr>\<rparr>]\<rparr>), sent = [],
       aistudio = None, alerts = [], location = ''/''\<rparr>"
  let ?resp = "\<lparr>resp_text = None,
        resp_candidates = Some [\<lparr>cand_content = Some \<lparr>content_parts =
          Some [\<lparr>part_inlineData = None\<rparr>,
                \<lparr>part_inlineData = Some \<lparr>inline_data = ''QUJD''\<rparr>\<rparr>]\<rparr>\<rparr>]\<rparr>"
  let ?v = "\<lparr>store = [], clock = (\<lambda>n. 1000), clock_reads = 0, uuids = (\<lambda>n. ''u0''),
       uuid_draws = 0, replies = (\<lambda>n. Inr \<lparr>resp_text = None, resp_candidates = None\<rparr>), sent = [],
       aistudio = None, alerts = [], location = ''/''\<rparr>"
  have k: "select_api_key ?w = Inr ()" by (simp add: select_api_key_def)
  have r: "replies ?w (length (sent ?w)) = Inr ?resp" by simp
  note T = removeTextFromImage_first_inline [OF k r, of "''x''"]
  have ps: "response_parts ?resp = [\<lparr>part_inlineData = None\<rparr>] @
        \<lparr>part_inlineData = Some \<lparr>inline_data = ''QUJD''\<rparr>\<rparr> # []"
    by (simp add: response_parts_def)
  from T have "\<forall>pre p post inl.
           response_parts ?resp = pre @ p # post
           \<and> (\<forall>q \<in> set pre. part_inlineData q = None) \<and> part_inlineData p = Some inl \<longrightarrow>
           fst (removeTextFromImage ''x'' ?w) = Some (''data:image/png;base64,'' @ inline_data inl)"
    by blast
  from this [rule_format, of "[\<lparr>part_inlineData = None\<rparr>]"
      "\<lparr>part_inlineData = Some \<lparr>inline_data = ''QUJD''\<rparr>\<rparr>" "[]" "\<lparr>inline_data = ''QUJD''\<rparr>"] ps
  have img: "fst (removeTextFromImage ''x'' ?w) = Some ''data:image/png;base64,QUJD''"
    by simp
  have k2: "select_api_key ?v = Inr ()" by (simp add: select_api_key_def)
  have r2: "replies ?v (length (sent ?v)) = Inr \<lparr>resp_text = None, resp_candidates = None\<rparr>"
    by simp
  from removeTextFromImage_first_inline [OF k2 r2, of "''x''"]
  have none: "fst (removeTextFromImage ''x'' ?v) = None"
    by simp
  from k r img k2 none show ?thesis by simp
qed

subsection \<open>Uploads\<close>

text \<open>
  C8. For every file larger than \<open>5 * 1024 * 1024\<close> bytes: the Dashboard leaves the
  object store and the route as they are, draws no key, reads no clock and sends no
  request, and only shows an alert; the single-page editor sets its error message and
  leaves the current file, image, processed image and blocks unchanged.
\<close>

theorem oversized_upload_rejected:
  assumes big: "5 * 1024 * 1024 < file_size f"
  shows "store (handleCreateProject (Some f) w) = store w
     \<and> location (handleCreateProject (Some f) w) = location w
     \<and> uuid_draws (handleCreateProject (Some f) w) = uuid_draws w
     \<and> clock_reads (handleCreateProject (Some f) w) = clock_reads w
     \<and> sent (handleCreateProject (Some f) w) = sent w
     \<and> alerts (handleCreateProject (Some f) w) = alerts w @ [''Image size too large (max 5MB)'']
     \<and> handleFileChange createObjectURL (Some f) st
         = st\<lparr>error_msg := Some ''File size too large. Please upload an image under 5MB.''\<rparr>
     \<and> error_msg (handleFileChange createObjectURL (Some f) st)
         = Some ''File size too large. Please upload an image under 5MB.''
     \<and> imageFile (handleFileChange createObjectURL (Some f) st) = imageFile st
     \<and> imageUrl (handleFileChange createObjectURL (Some f) st) = imageUrl st
     \<and> processedImageUrl (handleFileChange createObjectURL (Some f) st) = processedImageUrl st
     \<and> blocks_st (handleFileChange createObjectURL (Some f) st) = blocks_st st"
  using big by (simp add: handleCreateProject_def handleFileChange_def)

theorem oversized_upload_rejected_witness:
  "5 * 1024 * 1024 < file_size \<lparr>file_name = ''cat.png'', file_size = 5242881, file_dataURL = ''data:image/png;base64,AAAA''\<rparr>
   \<and> store (handleCreateProject (Some \<lparr>file_name = ''cat.png'', file_size = 5242881, file_dataURL = ''data:image/png;base64,AAAA''\<rparr>) \<lparr>store = [], clock = (\<lambda>n. 1000), clock_reads = 0, uuids = (\<lambda>n. ''u0''),
       uuid_draws = 0, replies = (\<lambda>n. Inl (NetworkError ''offline'')), sent = [],
       aistudio = None, alerts = [], location = ''/''\<rparr>) = []
   \<and> location (handleCreateProject (Some \<lparr>file_name = ''cat.png'', file_size = 5242881, file_dataURL = ''data:image/png;base64,AAAA''\<rparr>) \<lparr>store = [], clock = (\<lambda>n. 1000), clock_reads = 0, uuids = (\<lambda>n. ''u0''),
       uuid_draws = 0, replies = (\<lambda>n. Inl (NetworkError ''offline'')), sent = [],
       aistudio = None, alerts = [], location = ''/''\<rparr>) = ''/''
   \<and> error_msg (handleFileChange (\<lambda>f. ''blob:2'') (Some \<lparr>file_name = ''cat.png'', file_size = 5242881, file_dataURL = ''data:image/png;base64,AAAA''\<rparr>) \<lparr>imageFile = None, imageUrl = Some ''blob:1'', processedImageUrl = Some ''data:image/png;base64,BBBB'',
       isAnalyzing = False, statusMessage = ''Analyzing Image Structure...'', error_msg = None,
       blocks_st = []\<rparr>)
       = Some ''File size too large. Please upload an image under 5MB.''
   \<and> imageUrl (handleFileChange (\<lambda>f. ''blob:2'') (Some \<lparr>file_name = ''cat.png'', file_size = 5242881, file_dataURL = ''data:image/png;base64,AAAA''\<rparr>) \<lparr>imageFile = None, imageUrl = Some ''blob:1'', processedImageUrl = Some ''data:image/png;base64,BBBB'',
       isAnalyzing = False, statusMessage = ''Analyzing Image Structure...'', error_msg = None,
       blocks_st = []\<rparr>) = Some ''blob:1''
   \<and> processedImageUrl (handleFileChange (\<lambda>f. ''blob:2'') (Some \<lparr>file_name = ''cat.png'', file_size = 5242881, file_dataURL = ''data:image/png;base64,AAAA''\<rparr>) \<lparr>imageFile = None, imageUrl = Some ''blob:1'', processedImageUrl = Some ''data:image/png;base64,BBBB'',
       isAnalyzing = False, statusMessage = ''Analyzing Image Structure...'', error_msg = None,
       blocks_st = []\<rparr>)
       = Some ''data:image/png;base64,BBBB''"
proof -
  have big: "5 * 1024 * 1024 < file_size \<lparr>file_name = ''cat.png'', file_size = 5242881, file_dataURL = ''data:image/png;base64,AAAA''\<rparr>" by simp
  from oversized_upload_rejected [OF big, of "\<lparr>store = [], clock = (\<lambda>n. 1000), clock_reads = 0, uuids = (\<lambda>n. ''u0''),
       uuid_draws = 0, replies = (\<lambda>n. Inl (NetworkError ''offline'')), sent = [],
       aistudio = None, alerts = [], location = ''/''\<rparr>" "\<lambda>f. ''blob:2''" "\<lparr>imageFile = None, imageUrl = Some ''blob:1'', processedImageUrl = Some ''data:image/png;base64,BBBB'',
       isAnalyzing = False, statusMessage = ''Analyzing Image Structure...'', error_msg = None,
       blocks_st = []\<rparr>"] big
  show ?thesis by simp
qed

text \<open>
  A file of at most \<open>5 * 1024 * 1024\<close> bytes is accepted by both entry points.
\<close>

lemma upload_accepted:
  "file_size f \<le> 5 * 1024 * 1024 \<Longrightarrow>
   location (handleCreateProject (Some f) w) = ''/project/'' @ uuids w (uuid_draws w)
   \<and> getProject (uuids w (uuid_draws w)) (handleCreateProject (Some f) w) \<noteq> None
   \<and> imageFile (handleFileChange createObjectURL (Some f) st) = Some f
   \<and> blocks_st (handleFileChange createObjectURL (Some f) st) = []"
proof -
  assume small: "file_size f \<le> 5 * 1024 * 1024"
  let ?first = "takeWhile (\<lambda>c. c \<noteq> CHR ''.'') (file_name f)"
  let ?nm = "if ?first = [] then ''Untitled Project'' else ?first"
  let ?cp = "createProject ?nm (file_dataURL f) [] w"
  have run: "handleCreateProject (Some f) w = (snd ?cp)\<lparr>location := ''/project/'' @ fst ?cp\<rparr>"
    using small by (simp add: handleCreateProject_def Let_def case_prod_beta)
  have k: "fst ?cp = uuids w (uuid_draws w)"
    by (simp add: createProject_unfold)
  have st: "store (snd ?cp) = db_put \<lparr>project_id = uuids w (uuid_draws w), name = ?nm,
                         createdAt = clock w (clock_reads w),
                         updatedAt = clock w (Suc (clock_reads w)),
                         originalImage = file_dataURL f, processedImage = None, blocks = []\<rparr> (store w)"
    by (simp add: createProject_unfold)
  have got: "getProject (uuids w (uuid_draws w)) (handleCreateProject (Some f) w) \<noteq> None"
    unfolding run getProject_def
    using db_get_put_same [of "\<lparr>project_id = uuids w (uuid_draws w), name = ?nm,
                         createdAt = clock w (clock_reads w),
                         updatedAt = clock w (Suc (clock_reads w)),
                         originalImage = file_dataURL f, processedImage = None, blocks = []\<rparr>" "store w"]
    by (simp add: st)
  from small run k got show ?thesis
    by (simp add: handleFileChange_def)
qed

end
